theory Spec2Isabelle
  imports Complex_Main
begin

section \<open>Values, errors and the pattern library\<close>

text \<open>
  The tracing layer of desmod (\<^verbatim>\<open>desmod/tracer.py\<close>) is embedded function by function.
  Python objects that the code only inspects by type and truthiness are modelled by the
  datatype \<open>pyval\<close>; \<open>PNone\<close> is Python's \<^verbatim>\<open>None\<close>. The payload of a float is carried
  along unchanged and never computed with.
\<close>

datatype pyval = PNone | PBool bool | PInt int | PFloat real | PStr string

text \<open>Every exception the source can raise is a value; \<open>Inl\<close> of a result is a raise.\<close>

datatype error =
    NotImplementedError
  | AssertionError
  | KeyError pyval
  | AttributeError string
  | ValueError string
  | IndexError

text \<open>
  The standard library's \<^verbatim>\<open>re\<close> module is outside the repository. A pattern source is
  represented by its abstract syntax \<open>rx\<close> (the regular fragment: literal characters,
  \<^verbatim>\<open>.\<close>, concatenation, alternation, \<^verbatim>\<open>*\<close>), so a malformed pattern is
  excluded by the type. \<open>RNever\<close> matches nothing and only arises inside the matcher.
  A compiled pattern object is represented by what its \<^verbatim>\<open>match\<close> method decides:
  \<open>p s\<close> holds iff \<^verbatim>\<open>p.match(s)\<close> is not \<^verbatim>\<open>None\<close>.
\<close>

datatype rx = RNever | REmpty | RChar char | RAny | RSeq rx rx | RAlt rx rx | RStar rx

type_synonym pattern = "string \<Rightarrow> bool"

fun accepts_empty :: "rx \<Rightarrow> bool" where
  "accepts_empty RNever = False"
| "accepts_empty REmpty = True"
| "accepts_empty (RChar c) = False"
| "accepts_empty RAny = False"
| "accepts_empty (RSeq r s) = (accepts_empty r \<and> accepts_empty s)"
| "accepts_empty (RAlt r s) = (accepts_empty r \<or> accepts_empty s)"
| "accepts_empty (RStar r) = True"

text \<open>What remains of a pattern after it has read the character \<open>c\<close>. Python's
  \<^verbatim>\<open>.\<close> reads any character but the newline.\<close>

fun after_char :: "char \<Rightarrow> rx \<Rightarrow> rx" where
  "after_char c RNever = RNever"
| "after_char c REmpty = RNever"
| "after_char c (RChar d) = (if c = d then REmpty else RNever)"
| "after_char c RAny = (if c = CHR 0x0A then RNever else REmpty)"
| "after_char c (RSeq r s) =
     (if accepts_empty r then RAlt (RSeq (after_char c r) s) (after_char c s)
      else RSeq (after_char c r) s)"
| "after_char c (RAlt r s) = RAlt (after_char c r) (after_char c s)"
| "after_char c (RStar r) = RSeq (after_char c r) (RStar r)"

text \<open>\<^verbatim>\<open>re.match\<close>: anchored at position 0, free at the end. The match succeeds as soon
  as the part of the pattern still to be read accepts the empty string.\<close>

fun re_match :: "rx \<Rightarrow> string \<Rightarrow> bool" where
  "re_match r [] = accepts_empty r"
| "re_match r (c # cs) = (accepts_empty r \<or> re_match (after_char c r) cs)"

definition re_compile :: "rx \<Rightarrow> pattern" where
  "re_compile r = (\<lambda>s. re_match r s)"

text \<open>The words a pattern denotes, as a specification of the matcher (not executable).\<close>

inductive_set rep :: "string set \<Rightarrow> string set" for A :: "string set" where
  rep_nil: "[] \<in> rep A"
| rep_app: "u \<in> A \<Longrightarrow> v \<in> rep A \<Longrightarrow> u @ v \<in> rep A"

fun words :: "rx \<Rightarrow> string set" where
  "words RNever = {}"
| "words REmpty = {[]}"
| "words (RChar c) = {[c]}"
| "words RAny = {[c] | c. c \<noteq> CHR 0x0A}"
| "words (RSeq r s) = {u @ v | u v. u \<in> words r \<and> v \<in> words s}"
| "words (RAlt r s) = words r \<union> words s"
| "words (RStar r) = rep (words r)"

text \<open>A sequence of pattern atoms, e.g. the pattern \<^verbatim>\<open>a.b\<close> is
  \<open>rx_seq [RChar CHR ''a'', RAny, RChar CHR ''b'']\<close>.\<close>

fun rx_seq :: "rx list \<Rightarrow> rx" where
  "rx_seq [] = REmpty"
| "rx_seq (r # rs) = RSeq r (rx_seq rs)"

section \<open>Configuration, resources and recorded effects\<close>

text \<open>
  \<^verbatim>\<open>env.config\<close> is a dictionary from key strings to values. It is split by the type of
  the value a key holds: boolean switches, strings, and lists of pattern sources.
  \<^verbatim>\<open>config.get(k, d)\<close> is a lookup with default \<open>d\<close>, \<^verbatim>\<open>config[k]\<close> raises
  \<open>KeyError\<close> on a missing key.
\<close>

record config =
  flags :: "string \<rightharpoonup> bool"
  strs :: "string \<rightharpoonup> string"
  pats :: "string \<rightharpoonup> rx list"

record env =
  config :: config
  timescale :: "nat \<times> string"

text \<open>The simulated time \<^verbatim>\<open>env.now\<close> changes while the simulation runs; every function
  that reads it takes the current value as the argument \<open>now\<close>.\<close>

datatype resource = File_resource string | Writer_resource string

datatype sink = Stderr | File_sink string

datatype tracer_class = Tracer_class | LogTracer_class | VCDTracer_class

text \<open>The class attribute \<^verbatim>\<open>name\<close>.\<close>

fun name :: "tracer_class \<Rightarrow> string" where
  "name Tracer_class = []"
| "name LogTracer_class = ''log''"
| "name VCDTracer_class = ''vcd''"

text \<open>
  A tracer object: its class and its instance attributes. An attribute that has not
  been assigned is \<open>None\<close>; reading it raises \<open>AttributeError\<close>. \<open>exit_stack\<close> lists the
  contexts entered on the tracer's \<^verbatim>\<open>ExitStack\<close>, oldest first. \<open>vcd\<close> is the
  \<^verbatim>\<open>VCDWriter\<close>, identified by the dump file it writes; \<open>log_file\<close> is the attribute \<^verbatim>\<open>file\<close>.
\<close>

record tracer =
  cls :: tracer_class
  enabled :: bool
  exit_stack :: "resource list"
  include_re :: "pattern list option"
  exclude_re :: "pattern list option"
  max_level :: "nat option"
  format_str :: "string option"
  ts_unit :: "string option"
  log_file :: "sink option"
  vcd :: "string option"

text \<open>
  Formatting is kept symbolic: a rendered line is the template together with the values
  bound to its five placeholders, so nothing depends on how a float is printed. Whether
  formatting the configured template raises is decided by \<open>str_format\<close> below, for the
  call of line 88.
\<close>

datatype message = Text pyval | Formatted pyval pyval

record rendered =
  template :: string
  level_arg :: pyval
  ts_arg :: real
  ts_unit_arg :: string
  scope_arg :: string
  message_arg :: message

record partial_template =
  p_template :: string
  p_level :: pyval
  p_ts_unit :: string
  p_scope :: string

text \<open>\<^verbatim>\<open>format_str.format(level=..., ts=..., ts_unit=..., scope=..., message=...)\<close>.\<close>

definition format_full ::
  "string \<Rightarrow> pyval \<Rightarrow> real \<Rightarrow> string \<Rightarrow> string \<Rightarrow> message \<Rightarrow> rendered" where
  "format_full f lvl ts u sc m =
     \<lparr>template = f, level_arg = lvl, ts_arg = ts, ts_unit_arg = u, scope_arg = sc,
      message_arg = m\<rparr>"

text \<open>Modelled from the spec: \<^verbatim>\<open>partial_format\<close> of \<^verbatim>\<open>desmod/util.py\<close> is not among the
  sources. It partially binds the format template with level, time unit and scope; the
  later \<^verbatim>\<open>.format(ts=..., message=...)\<close> finishes formatting with the current
  simulated time and the message.\<close>

definition partial_format :: "string \<Rightarrow> pyval \<Rightarrow> string \<Rightarrow> string \<Rightarrow> partial_template" where
  "partial_format f lvl u sc = \<lparr>p_template = f, p_level = lvl, p_ts_unit = u, p_scope = sc\<rparr>"

definition finish_format :: "partial_template \<Rightarrow> real \<Rightarrow> message \<Rightarrow> rendered" where
  "finish_format pt ts m =
     format_full (p_template pt) (p_level pt) ts (p_ts_unit pt) (p_scope pt) m"

text \<open>The objects a probe can be attached to: \<^verbatim>\<open>simpy.Container\<close>,
  \<^verbatim>\<open>simpy.Resource\<close>, \<^verbatim>\<open>simpy.Store\<close>, and anything else.\<close>

datatype target =
    Container (level: pyval)
  | Resource (users: "nat list") (capacity: nat)
  | Store (items: "pyval list")
  | Other_target

type_synonym hint_entry = "string \<rightharpoonup> pyval"
type_synonym hints = "string \<rightharpoonup> hint_entry"
type_synonym kwargs = "(string \<times> pyval) list"

text \<open>The registration entry points of the \<^verbatim>\<open>VCDWriter\<close>, and the variable a
  registration returns: the entry point, the parent scope, the leaf name and the keyword
  arguments it was registered with.\<close>

datatype register_meth = Register_int | Register_real | Register_event | Register_var

record var =
  var_meth :: register_meth
  var_scope :: string
  var_name :: string
  var_kwargs :: kwargs

text \<open>Closures are data: each records the object and the values it captured.\<close>

datatype callback =
    Log_probe_callback tracer partial_template pyval
  | Vcd_probe_callback tracer var

datatype log_function = Log_write tracer partial_template | Log_noop

text \<open>What the code does to the outside world, in the order it does it.\<close>

datatype event =
    Opened string
  | Writer_created string "nat \<times> string" bool
  | Viewer_spawned string string
  | Closed resource
  | Printed sink rendered "pyval list"
  | Registered var
  | Changed var real pyval
  | Probe_activated string
  | Attached string target "callback list" hints

text \<open>The formatted traceback of an exception in flight,
  \<^verbatim>\<open>traceback.format_exception(exc_type, exc_val, exc_tb)\<close>: a list of strings that is
  never empty, so it is kept as its front and its last element.\<close>

record exc_info =
  tb_front :: "string list"
  tb_last :: string

definition format_exception :: "exc_info \<Rightarrow> string list" where
  "format_exception x = tb_front x @ [tb_last x]"

section \<open>Tracer: construction and the scope filter\<close>

text \<open>Decimal digits of a number, for \<^verbatim>\<open>'({}{})'.format(ts_n, ts_unit)\<close>.\<close>

fun str_of_nat :: "nat \<Rightarrow> string" where
  "str_of_nat n =
     (if n < 10 then [char_of (48 + n)]
      else str_of_nat (n div 10) @ [char_of (48 + n mod 10)])"

declare str_of_nat.simps [simp del]

text \<open>\<^verbatim>\<open>LogTracer.levels\<close> and the lookup \<^verbatim>\<open>self.levels[level]\<close>.\<close>

definition levels :: "string \<rightharpoonup> nat" where
  "levels = map_of
     [(''ERROR'', 1), (''WARNING'', 2), (''INFO'', 3), (''PROBE'', 4), (''DEBUG'', 5)]"

definition level_rank :: "pyval \<Rightarrow> error + nat" where
  "level_rank l =
     (case l of
        PStr s \<Rightarrow> (case levels s of Some r \<Rightarrow> Inr r | None \<Rightarrow> Inl (KeyError l))
      | _ \<Rightarrow> Inl (KeyError l))"

definition default_format :: string where
  "default_format = ''{level} {ts:.3f} {ts_unit}: {scope}: {message}''"

text \<open>\<^verbatim>\<open>LogTracer.open\<close>. Opening a file is recorded as an event; the file is
  entered on the exit stack.\<close>

definition LogTracer_open :: "env \<Rightarrow> tracer \<Rightarrow> error + (event list \<times> tracer)" where
  "LogTracer_open e t =
     (let log_filename = strs (config e) ''sim.log.file'' in
      case level_rank (PStr (case strs (config e) ''sim.log.level'' of
                               None \<Rightarrow> ''INFO'' | Some l \<Rightarrow> l)) of
        Inl err \<Rightarrow> Inl err
      | Inr ml \<Rightarrow>
          (let fmt = (case strs (config e) ''sim.log.format'' of
                        None \<Rightarrow> default_format | Some f \<Rightarrow> f);
               u = (case timescale e of
                      (ts_n, ts_u) \<Rightarrow>
                        if ts_n = 1 then ts_u
                        else ''('' @ str_of_nat ts_n @ ts_u @ '')'');
               t1 = t\<lparr>max_level := Some ml, format_str := Some fmt, ts_unit := Some u\<rparr>
           in case log_filename of
                None \<Rightarrow> Inr ([], t1\<lparr>log_file := Some Stderr\<rparr>)
              | Some f \<Rightarrow>
                  if f \<noteq> []
                  then Inr ([Opened f],
                            t1\<lparr>log_file := Some (File_sink f),
                               exit_stack := exit_stack t1 @ [File_resource f]\<rparr>)
                  else Inr ([], t1\<lparr>log_file := Some Stderr\<rparr>)))"

text \<open>\<^verbatim>\<open>VCDTracer.open\<close>: the dump file, then the writer over it, are entered on the
  exit stack; the viewer is spawned when \<^verbatim>\<open>sim.gtkw.live\<close> is set.\<close>

definition VCDTracer_open :: "env \<Rightarrow> tracer \<Rightarrow> error + (event list \<times> tracer)" where
  "VCDTracer_open e t =
     (case strs (config e) ''sim.vcd.dump_file'' of
        None \<Rightarrow> Inl (KeyError (PStr ''sim.vcd.dump_file''))
      | Some dump_filename \<Rightarrow>
          (let check = (case flags (config e) ''sim.vcd.check_values'' of
                          None \<Rightarrow> True | Some b \<Rightarrow> b);
               evs = [Opened dump_filename, Writer_created dump_filename (timescale e) check];
               t1 = t\<lparr>vcd := Some dump_filename,
                      exit_stack := exit_stack t @
                        [File_resource dump_filename, Writer_resource dump_filename]\<rparr>
           in if (case flags (config e) ''sim.gtkw.live'' of None \<Rightarrow> False | Some b \<Rightarrow> b)
              then (case strs (config e) ''sim.gtkw.file'' of
                      None \<Rightarrow> Inl (KeyError (PStr ''sim.gtkw.file''))
                    | Some save_filename \<Rightarrow>
                        Inr (evs @ [Viewer_spawned dump_filename save_filename], t1))
              else Inr (evs, t1)))"

text \<open>\<^verbatim>\<open>self.open()\<close>, dispatched on the class; the base class raises.\<close>

definition tracer_open :: "env \<Rightarrow> tracer \<Rightarrow> error + (event list \<times> tracer)" where
  "tracer_open e t =
     (case cls t of
        Tracer_class \<Rightarrow> Inl NotImplementedError
      | LogTracer_class \<Rightarrow> LogTracer_open e t
      | VCDTracer_class \<Rightarrow> VCDTracer_open e t)"

text \<open>\<^verbatim>\<open>Tracer.__init__\<close>, for an object of class \<open>c\<close>. The result carries the events
  of the construction; a construction that raises is reported by its exception alone.\<close>

definition Tracer_init :: "tracer_class \<Rightarrow> env \<Rightarrow> error + (event list \<times> tracer)" where
  "Tracer_init c e =
     (let cfg_scope = ''sim.'' @ name c @ ''.'';
          en = (case flags (config e) (cfg_scope @ ''enable'') of
                  None \<Rightarrow> False | Some b \<Rightarrow> b);
          t0 = \<lparr>cls = c, enabled = en, exit_stack = [], include_re = None,
                exclude_re = None, max_level = None, format_str = None, ts_unit = None,
                log_file = None, vcd = None\<rparr>
      in if en then
           (case tracer_open e t0 of
              Inl err \<Rightarrow> Inl err
            | Inr (evs, t1) \<Rightarrow>
                (let include_pat = (case pats (config e) (cfg_scope @ ''include_pat'') of
                                      None \<Rightarrow> [RStar RAny] | Some ps \<Rightarrow> ps);
                     exclude_pat = (case pats (config e) (cfg_scope @ ''exclude_pat'') of
                                      None \<Rightarrow> [] | Some ps \<Rightarrow> ps)
                 in Inr (evs, t1\<lparr>include_re := Some (map re_compile include_pat),
                                 exclude_re := Some (map re_compile exclude_pat)\<rparr>)))
         else Inr ([], t0))"

text \<open>\<^verbatim>\<open>Tracer.is_scope_enabled\<close>, with the short-circuit order of \<^verbatim>\<open>and\<close>.\<close>

definition Tracer_is_scope_enabled :: "tracer \<Rightarrow> string \<Rightarrow> error + bool" where
  "Tracer_is_scope_enabled t scope =
     (if \<not> enabled t then Inr False
      else case include_re t of
             None \<Rightarrow> Inl (AttributeError ''_include_re'')
           | Some inc \<Rightarrow>
               if \<not> list_ex (\<lambda>r. r scope) inc then Inr False
               else (case exclude_re t of
                       None \<Rightarrow> Inl (AttributeError ''_exclude_re'')
                     | Some exc \<Rightarrow> Inr (\<not> list_ex (\<lambda>r. r scope) exc)))"

text \<open>\<^verbatim>\<open>LogTracer.is_scope_enabled\<close>: the level test comes first, and reads
  \<^verbatim>\<open>self.levels[level]\<close> before \<^verbatim>\<open>self.max_level\<close>.\<close>

definition LogTracer_is_scope_enabled :: "tracer \<Rightarrow> string \<Rightarrow> pyval \<Rightarrow> error + bool" where
  "LogTracer_is_scope_enabled t scope lvl =
     (if lvl = PNone then Tracer_is_scope_enabled t scope
      else case level_rank lvl of
             Inl err \<Rightarrow> Inl err
           | Inr rk \<Rightarrow>
               (case max_level t of
                  None \<Rightarrow> Inl (AttributeError ''max_level'')
                | Some m \<Rightarrow> if rk \<le> m then Tracer_is_scope_enabled t scope else Inr False))"

text \<open>\<^verbatim>\<open>tracer.is_scope_enabled(scope)\<close> as \<^verbatim>\<open>auto_probe\<close> calls it: dispatched on
  the class, the level left at its default \<^verbatim>\<open>None\<close>.\<close>

definition is_scope_enabled :: "tracer \<Rightarrow> string \<Rightarrow> error + bool" where
  "is_scope_enabled t scope =
     (case cls t of
        LogTracer_class \<Rightarrow> LogTracer_is_scope_enabled t scope PNone
      | _ \<Rightarrow> Tracer_is_scope_enabled t scope)"

section \<open>Log tracer\<close>

text \<open>\<^verbatim>\<open>LogTracer.get_log_function\<close>. The returned closure captures \<^verbatim>\<open>self\<close> and the
  partially bound template.\<close>

definition get_log_function :: "tracer \<Rightarrow> string \<Rightarrow> pyval \<Rightarrow> error + log_function" where
  "get_log_function t scope lvl =
     (case LogTracer_is_scope_enabled t scope lvl of
        Inl err \<Rightarrow> Inl err
      | Inr True \<Rightarrow>
          (case format_str t of
             None \<Rightarrow> Inl (AttributeError ''format_str'')
           | Some f \<Rightarrow>
               (case ts_unit t of
                  None \<Rightarrow> Inl (AttributeError ''ts_unit'')
                | Some u \<Rightarrow> Inr (Log_write t (partial_format f lvl u scope))))
      | Inr False \<Rightarrow> Inr Log_noop)"


text \<open>\<^verbatim>\<open>LogTracer.activate_probe\<close>.\<close>

definition LogTracer_activate_probe ::
  "tracer \<Rightarrow> string \<Rightarrow> target \<Rightarrow> hints \<Rightarrow> error + (event list \<times> callback option)" where
  "LogTracer_activate_probe t scope tgt hs =
     (let log_hints = (case hs ''log'' of None \<Rightarrow> Map.empty | Some h \<Rightarrow> h);
          lvl = (case log_hints ''level'' of None \<Rightarrow> PStr ''PROBE'' | Some l \<Rightarrow> l)
      in case LogTracer_is_scope_enabled t scope lvl of
           Inl err \<Rightarrow> Inl err
         | Inr False \<Rightarrow> Inr ([], None)
         | Inr True \<Rightarrow>
             (let value_fmt = (case log_hints ''value_fmt'' of
                                 None \<Rightarrow> PStr ''{value}'' | Some f \<Rightarrow> f)
              in case format_str t of
                   None \<Rightarrow> Inl (AttributeError ''format_str'')
                 | Some f \<Rightarrow>
                     (case ts_unit t of
                        None \<Rightarrow> Inl (AttributeError ''ts_unit'')
                      | Some u \<Rightarrow>
                          Inr ([], Some (Log_probe_callback t
                                           (partial_format f lvl u scope) value_fmt)))))"

section \<open>Signal tracer\<close>

text \<open>Lines 154 to 165: the kind of the signal. \<^verbatim>\<open>vcd_hints.get('var_type')\<close> is
  \<^verbatim>\<open>None\<close> both for a missing key and for a key bound to \<^verbatim>\<open>None\<close>.\<close>

definition is_float :: "pyval \<Rightarrow> bool" where
  "is_float v = (case v of PFloat x \<Rightarrow> True | _ \<Rightarrow> False)"

definition resolve_var_type :: "string \<Rightarrow> target \<Rightarrow> hint_entry \<Rightarrow> error + pyval" where
  "resolve_var_type scope tgt vcd_hints =
     (let var_type = (case vcd_hints ''var_type'' of None \<Rightarrow> PNone | Some v \<Rightarrow> v)
      in if var_type = PNone then
           (case tgt of
              Container lv \<Rightarrow>
                if is_float lv then Inr (PStr ''real'') else Inr (PStr ''integer'')
            | Resource us cap \<Rightarrow> Inr (PStr ''integer'')
            | Store its \<Rightarrow> Inr (PStr ''integer'')
            | Other_target \<Rightarrow>
                Inl (ValueError (''Could not infer VCD var_type for '' @ scope)))
         else Inr var_type)"

text \<open>Lines 167 to 169: the keyword arguments taken over from the hints.\<close>

definition hint_kwargs :: "hint_entry \<Rightarrow> kwargs" where
  "hint_kwargs vcd_hints =
     concat (map (\<lambda>k. case vcd_hints k of None \<Rightarrow> [] | Some v \<Rightarrow> [(k, v)])
               [''size'', ''init'', ''ident''])"

text \<open>Lines 171 to 179: the registration entry point. The last branch reads the attribute
  \<^verbatim>\<open>self.vcd_register_var\<close>, which no tracer has, so the assignment to
  \<^verbatim>\<open>kwargs['var_type']\<close> after it is never reached.\<close>

definition select_register ::
  "tracer \<Rightarrow> pyval \<Rightarrow> kwargs \<Rightarrow> error + (register_meth \<times> kwargs)" where
  "select_register t var_type kw =
     (if var_type = PStr ''integer'' then
        (case vcd t of None \<Rightarrow> Inl (AttributeError ''vcd'')
                     | Some w \<Rightarrow> Inr (Register_int, kw))
      else if var_type = PStr ''real'' then
        (case vcd t of None \<Rightarrow> Inl (AttributeError ''vcd'')
                     | Some w \<Rightarrow> Inr (Register_real, kw))
      else if var_type = PStr ''event'' then
        (case vcd t of None \<Rightarrow> Inl (AttributeError ''vcd'')
                     | Some w \<Rightarrow> Inr (Register_event, kw))
      else Inl (AttributeError ''vcd_register_var''))"

text \<open>Lines 181 to 187: the initial value, when the hints give none.\<close>

definition default_init :: "target \<Rightarrow> kwargs \<Rightarrow> kwargs" where
  "default_init tgt kw =
     (if map_of kw ''init'' = None then
        (case tgt of
           Container lv \<Rightarrow> kw @ [(''init'', lv)]
         | Resource us cap \<Rightarrow>
             kw @ [(''init'', if us \<noteq> [] then PInt (int (length us)) else PStr ''z'')]
         | Store its \<Rightarrow> kw @ [(''init'', PInt (int (length its)))]
         | Other_target \<Rightarrow> kw)
      else kw)"

text \<open>\<^verbatim>\<open>scope.rsplit('.', 1)\<close>: split at the last dot, or the whole string alone when
  it has no dot.\<close>

definition rsplit_dot :: "string \<Rightarrow> string list" where
  "rsplit_dot s =
     (let r = rev s;
          leaf = takeWhile (\<lambda>c. c \<noteq> CHR ''.'') r;
          rest = dropWhile (\<lambda>c. c \<noteq> CHR ''.'') r
      in case rest of [] \<Rightarrow> [s] | d # parent \<Rightarrow> [rev parent, rev leaf])"

definition unpack_error :: error where
  "unpack_error = ValueError ''not enough values to unpack (expected 2, got 1)''"

text \<open>\<^verbatim>\<open>VCDTracer.activate_probe\<close>. The writer is an external collaborator: a
  registration is recorded as an event and returns the variable.\<close>

definition VCDTracer_activate_probe ::
  "tracer \<Rightarrow> string \<Rightarrow> target \<Rightarrow> hints \<Rightarrow> error + (event list \<times> callback option)" where
  "VCDTracer_activate_probe t scope tgt hs =
     (if \<not> enabled t then Inl AssertionError
      else
        (let vcd_hints = (case hs ''vcd'' of None \<Rightarrow> Map.empty | Some h \<Rightarrow> h)
         in case resolve_var_type scope tgt vcd_hints of
              Inl err \<Rightarrow> Inl err
            | Inr var_type \<Rightarrow>
                (case select_register t var_type (hint_kwargs vcd_hints) of
                   Inl err \<Rightarrow> Inl err
                 | Inr (register_meth, kw) \<Rightarrow>
                     (case rsplit_dot scope of
                        [parent_scope, nm] \<Rightarrow>
                          (let v = \<lparr>var_meth = register_meth, var_scope = parent_scope,
                                    var_name = nm, var_kwargs = default_init tgt kw\<rparr>
                           in Inr ([Registered v], Some (Vcd_probe_callback t v)))
                      | _ \<Rightarrow> Inl unpack_error))))"

text \<open>Calling a probe callback with a value.\<close>

fun call_callback :: "callback \<Rightarrow> real \<Rightarrow> pyval \<Rightarrow> error + event list" where
  "call_callback (Log_probe_callback t pt value_fmt) now v =
     (case log_file t of
        None \<Rightarrow> Inl (AttributeError ''file'')
      | Some s \<Rightarrow> Inr [Printed s (finish_format pt now (Formatted value_fmt v)) []])"
| "call_callback (Vcd_probe_callback t x) now v =
     (case vcd t of
        None \<Rightarrow> Inl (AttributeError ''vcd'')
      | Some w \<Rightarrow> Inr [Changed x now v])"

section \<open>Trace manager\<close>

text \<open>\<^verbatim>\<open>tracer.activate_probe(scope, target, **hints)\<close>, dispatched on the class.\<close>

definition activate_probe ::
  "tracer \<Rightarrow> string \<Rightarrow> target \<Rightarrow> hints \<Rightarrow> error + (event list \<times> callback option)" where
  "activate_probe t scope tgt hs =
     (case cls t of
        Tracer_class \<Rightarrow> Inl NotImplementedError
      | LogTracer_class \<Rightarrow> LogTracer_activate_probe t scope tgt hs
      | VCDTracer_class \<Rightarrow> VCDTracer_activate_probe t scope tgt hs)"

record trace_manager =
  log_tracer :: tracer
  vcd_tracer :: tracer

text \<open>\<^verbatim>\<open>self.tracers\<close> holds the two tracer objects themselves.\<close>

definition tracers :: "trace_manager \<Rightarrow> tracer list" where
  "tracers tm = [log_tracer tm, vcd_tracer tm]"

definition TraceManager_init :: "env \<Rightarrow> error + (event list \<times> trace_manager)" where
  "TraceManager_init e =
     (case Tracer_init LogTracer_class e of
        Inl err \<Rightarrow> Inl err
      | Inr (evs1, lt) \<Rightarrow>
          (case Tracer_init VCDTracer_class e of
             Inl err \<Rightarrow> Inl err
           | Inr (evs2, vt) \<Rightarrow> Inr (evs1 @ evs2, \<lparr>log_tracer = lt, vcd_tracer = vt\<rparr>)))"

text \<open>The loop of \<^verbatim>\<open>auto_probe\<close> over the tracers still to visit: \<open>cbs\<close> are the callbacks
  collected and \<open>evs\<close> the events so far. Each call of \<^verbatim>\<open>activate_probe\<close> is marked by
  \<open>Probe_activated\<close> with the tracer's name. An exception ends the loop.\<close>

fun probe_loop ::
  "tracer list \<Rightarrow> string \<Rightarrow> target \<Rightarrow> hints \<Rightarrow> callback list \<Rightarrow> event list \<Rightarrow>
   event list \<times> (error + callback list)" where
  "probe_loop [] scope tgt hs cbs evs = (evs, Inr cbs)"
| "probe_loop (t # ts) scope tgt hs cbs evs =
     (if hs (name (cls t)) \<noteq> None then
        (case is_scope_enabled t scope of
           Inl err \<Rightarrow> (evs, Inl err)
         | Inr False \<Rightarrow> probe_loop ts scope tgt hs cbs evs
         | Inr True \<Rightarrow>
             (case activate_probe t scope tgt hs of
                Inl err \<Rightarrow> (evs @ [Probe_activated (name (cls t))], Inl err)
              | Inr (es, cb) \<Rightarrow>
                  probe_loop ts scope tgt hs
                    (cbs @ (case cb of None \<Rightarrow> [] | Some c \<Rightarrow> [c]))
                    (evs @ [Probe_activated (name (cls t))] @ es)))
      else probe_loop ts scope tgt hs cbs evs)"

text \<open>\<^verbatim>\<open>TraceManager.auto_probe\<close>: the events, and the exception that ended the call if
  one did. \<open>Attached\<close> is the call of \<^verbatim>\<open>probe.attach\<close>.\<close>

definition auto_probe ::
  "trace_manager \<Rightarrow> string \<Rightarrow> target \<Rightarrow> hints \<Rightarrow> event list \<times> error option" where
  "auto_probe tm scope tgt hs =
     (case probe_loop (tracers tm) scope tgt hs [] [] of
        (evs, Inl err) \<Rightarrow> (evs, Some err)
      | (evs, Inr cbs) \<Rightarrow>
          if cbs \<noteq> [] then (evs @ [Attached scope tgt cbs hs], None) else (evs, None))"

section \<open>Formatting a template\<close>

text \<open>
  \<^verbatim>\<open>str.format\<close> is a builtin of the language. Whether it returns or raises is modelled
  for the templates made of literal text, the escapes \<^verbatim>\<open>{{\<close> and \<^verbatim>\<open>}}\<close>, and
  replacement fields \<^verbatim>\<open>{name}\<close> and \<^verbatim>\<open>{name:spec}\<close> whose specification is empty or a
  fixed-point one such as \<^verbatim>\<open>.3f\<close> applied to a number. The template is read from left to
  right and the first failure ends the call: a field whose name is not a keyword
  argument raises \<open>KeyError\<close> with that name, a field with an empty or a numeric name
  raises \<open>IndexError\<close> (there are no positional arguments), a brace that is neither
  doubled nor part of a field raises \<open>ValueError\<close>. Everything else (conversions,
  attribute and index access, nested fields, other specifications, a field left open)
  lies beyond this fragment: there the outcome is whatever the parameter \<open>ext\<close> says,
  \<open>None\<close> for a normal return, so that a statement proved for every \<open>ext\<close> does not
  depend on it.
\<close>

datatype value_kind = Number | String

datatype fmt_outcome = Fmt_done | Fmt_raise error | Fmt_beyond

datatype scan_state = Text_mode | Open_seen | Field_mode string | Close_seen

definition is_digit :: "char \<Rightarrow> bool" where
  "is_digit c \<longleftrightarrow> c \<in> set ''0123456789''"

text \<open>A specification \<^verbatim>\<open>.Nf\<close> or \<^verbatim>\<open>.NNf\<close>.\<close>

fun is_fixed_spec :: "string \<Rightarrow> bool" where
  "is_fixed_spec [p, a, f] \<longleftrightarrow> p = CHR ''.'' \<and> is_digit a \<and> f = CHR ''f''"
| "is_fixed_spec [p, a, b, f] \<longleftrightarrow>
     p = CHR ''.'' \<and> is_digit a \<and> is_digit b \<and> f = CHR ''f''"
| "is_fixed_spec sp \<longleftrightarrow> False"

text \<open>One replacement field, given the text between its braces and the kinds of the
  keyword arguments. The argument is looked up before its specification is used.\<close>

definition check_field :: "(string \<rightharpoonup> value_kind) \<Rightarrow> string \<Rightarrow> fmt_outcome" where
  "check_field kw body =
     (let nm = takeWhile (\<lambda>c. c \<noteq> CHR '':'') body;
          sp = drop (Suc (length nm)) body
      in if list_ex (\<lambda>c. c \<in> set ''!.[]'') nm then Fmt_beyond
         else if nm = [] then Fmt_raise IndexError
         else if list_all is_digit nm then
           (if length nm \<le> 9 then Fmt_raise IndexError else Fmt_beyond)
         else (case kw nm of
                 None \<Rightarrow> Fmt_raise (KeyError (PStr nm))
               | Some k \<Rightarrow>
                   if sp = [] then Fmt_done
                   else if is_fixed_spec sp \<and> k = Number then Fmt_done
                   else Fmt_beyond))"

definition single_open :: error where
  "single_open = ValueError ''Single '{' encountered in format string''"

definition single_close :: error where
  "single_close = ValueError ''Single '}' encountered in format string''"

fun scan_format :: "(string \<rightharpoonup> value_kind) \<Rightarrow> scan_state \<Rightarrow> string \<Rightarrow> fmt_outcome" where
  "scan_format kw Text_mode [] = Fmt_done"
| "scan_format kw Open_seen [] = Fmt_raise single_open"
| "scan_format kw (Field_mode b) [] = Fmt_beyond"
| "scan_format kw Close_seen [] = Fmt_raise single_close"
| "scan_format kw Text_mode (c # cs) =
     (if c = CHR ''{'' then scan_format kw Open_seen cs
      else if c = CHR ''}'' then scan_format kw Close_seen cs
      else scan_format kw Text_mode cs)"
| "scan_format kw Open_seen (c # cs) =
     (if c = CHR ''{'' then scan_format kw Text_mode cs
      else if c = CHR ''}'' then
        (case check_field kw [] of
           Fmt_done \<Rightarrow> scan_format kw Text_mode cs
         | r \<Rightarrow> r)
      else scan_format kw (Field_mode [c]) cs)"
| "scan_format kw (Field_mode b) (c # cs) =
     (if c = CHR ''}'' then
        (case check_field kw b of
           Fmt_done \<Rightarrow> scan_format kw Text_mode cs
         | r \<Rightarrow> r)
      else if c = CHR ''{'' then Fmt_beyond
      else scan_format kw (Field_mode (b @ [c])) cs)"
| "scan_format kw Close_seen (c # cs) =
     (if c = CHR ''}'' then scan_format kw Text_mode cs
      else Fmt_raise single_close)"

text \<open>\<^verbatim>\<open>template.format(**bindings)\<close>: the rendered line, or the exception.\<close>

definition str_format ::
  "(rendered \<Rightarrow> error option) \<Rightarrow> (string \<rightharpoonup> value_kind) \<Rightarrow> rendered \<Rightarrow> error + rendered" where
  "str_format ext kw r =
     (case scan_format kw Text_mode (template r) of
        Fmt_done \<Rightarrow> Inr r
      | Fmt_raise err \<Rightarrow> Inl err
      | Fmt_beyond \<Rightarrow> (case ext r of None \<Rightarrow> Inr r | Some err \<Rightarrow> Inl err))"

text \<open>The keyword arguments of line 88: \<^verbatim>\<open>ts\<close> is the simulated time, a number; the
  other four are strings.\<close>

definition exit_kinds :: "string \<rightharpoonup> value_kind" where
  "exit_kinds = map_of
     [(''level'', String), (''ts'', Number), (''ts_unit'', String), (''scope'', String),
      (''message'', String)]"

section \<open>Leaving the tracing scope\<close>

text \<open>\<^verbatim>\<open>Tracer.close\<close>: the exit stack releases its contexts, newest first, and is
  empty afterwards.\<close>

definition close :: "tracer \<Rightarrow> event list \<times> tracer" where
  "close t = (map Closed (rev (exit_stack t)), t\<lparr>exit_stack := []\<rparr>)"

text \<open>\<^verbatim>\<open>Tracer.__exit__\<close> closes and returns \<^verbatim>\<open>None\<close>.\<close>

definition Tracer_exit :: "tracer \<Rightarrow> exc_info option \<Rightarrow> event list \<times> tracer" where
  "Tracer_exit t exc = close t"

text \<open>\<^verbatim>\<open>LogTracer.__exit__\<close>: when an exception is in flight and the tracer is enabled,
  the template is formatted, the line printed, and then the tracer closes. When the
  formatting raises, nothing is printed and \<^verbatim>\<open>close\<close> is not reached. Otherwise the
  method returns \<^verbatim>\<open>None\<close>.\<close>

definition LogTracer_exit ::
  "(rendered \<Rightarrow> error option) \<Rightarrow> tracer \<Rightarrow> exc_info option \<Rightarrow> real \<Rightarrow>
   error + (event list \<times> tracer)" where
  "LogTracer_exit ext t exc now =
     (case exc of
        None \<Rightarrow> Inr (close t)
      | Some x \<Rightarrow>
          if enabled t then
            (let tb_lines = format_exception x
             in case format_str t of
                  None \<Rightarrow> Inl (AttributeError ''format_str'')
                | Some f \<Rightarrow>
                    (case ts_unit t of
                       None \<Rightarrow> Inl (AttributeError ''ts_unit'')
                     | Some u \<Rightarrow>
                         (case str_format ext exit_kinds
                                 (format_full f (PStr ''ERROR'') now u ''Exception''
                                    (Text (PStr (last tb_lines)))) of
                            Inl err \<Rightarrow> Inl err
                          | Inr line \<Rightarrow>
                              (case log_file t of
                                 None \<Rightarrow> Inl (AttributeError ''file'')
                               | Some s \<Rightarrow>
                                   Inr (Printed s line (PStr [CHR 0x0A] # map PStr tb_lines)
                                        # fst (close t),
                                        snd (close t))))))
          else Inr (close t))"

text \<open>\<^verbatim>\<open>TraceManager.__exit__\<close>: the manager's exit stack leaves its contexts newest
  first, the signal tracer and then the log tracer, handing each the exception in flight
  (neither suppresses it). The method has no \<^verbatim>\<open>return\<close>: its result \<open>Inr False\<close> is
  the falsy \<^verbatim>\<open>None\<close>, on which Python re-raises the exception in flight; \<open>Inl\<close> is an
  exception raised by an exit itself, which the exit stack raises in place of the one
  in flight.\<close>

definition TraceManager_exit ::
  "(rendered \<Rightarrow> error option) \<Rightarrow> trace_manager \<Rightarrow> exc_info option \<Rightarrow> real \<Rightarrow>
   event list \<times> trace_manager \<times> (error + bool)" where
  "TraceManager_exit ext tm exc now =
     (case Tracer_exit (vcd_tracer tm) exc of
        (evs_v, vt) \<Rightarrow>
          (case LogTracer_exit ext (log_tracer tm) exc now of
             Inl err \<Rightarrow> (evs_v, tm\<lparr>vcd_tracer := vt\<rparr>, Inl err)
           | Inr (evs_l, lt) \<Rightarrow>
               (evs_v @ evs_l, \<lparr>log_tracer = lt, vcd_tracer = vt\<rparr>, Inr False)))"

section \<open>Example configurations\<close>

text \<open>The pattern \<^verbatim>\<open>sim.queue\<close> and the pattern \<^verbatim>\<open>sim.queue.x\<close>.\<close>

definition pat_sim_queue :: rx where
  "pat_sim_queue = rx_seq (map RChar ''sim'' @ [RAny] @ map RChar ''queue'')"

definition pat_sim_queue_x :: rx where
  "pat_sim_queue_x =
     rx_seq (map RChar ''sim'' @ [RAny] @ map RChar ''queue'' @ [RAny, RChar CHR ''x''])"

text \<open>An empty configuration: both tracers are disabled.\<close>

definition env_off :: env where
  "env_off = \<lparr>config = \<lparr>flags = Map.empty, strs = Map.empty, pats = Map.empty\<rparr>,
              timescale = (1, ''us'')\<rparr>"

text \<open>Both tracers enabled with their default patterns; the log goes to a file.\<close>

definition env_on :: env where
  "env_on =
     \<lparr>config =
        \<lparr>flags = [''sim.log.enable'' \<mapsto> True, ''sim.vcd.enable'' \<mapsto> True],
         strs = [''sim.log.file'' \<mapsto> ''sim.log'', ''sim.vcd.dump_file'' \<mapsto> ''sim.vcd''],
         pats = Map.empty\<rparr>,
      timescale = (1, ''us'')\<rparr>"

text \<open>The tracers that \<open>Tracer_init\<close> builds from \<open>env_off\<close> and \<open>env_on\<close>.\<close>

definition log_off :: tracer where
  "log_off = \<lparr>cls = LogTracer_class, enabled = False, exit_stack = [], include_re = None,
               exclude_re = None, max_level = None, format_str = None, ts_unit = None,
               log_file = None, vcd = None\<rparr>"

definition vcd_off :: tracer where
  "vcd_off = \<lparr>cls = VCDTracer_class, enabled = False, exit_stack = [], include_re = None,
               exclude_re = None, max_level = None, format_str = None, ts_unit = None,
               log_file = None, vcd = None\<rparr>"

definition log_on :: tracer where
  "log_on = \<lparr>cls = LogTracer_class, enabled = True,
              exit_stack = [File_resource ''sim.log''],
              include_re = Some [re_compile (RStar RAny)], exclude_re = Some [],
              max_level = Some 3, format_str = Some default_format, ts_unit = Some ''us'',
              log_file = Some (File_sink ''sim.log''), vcd = None\<rparr>"

definition vcd_on :: tracer where
  "vcd_on = \<lparr>cls = VCDTracer_class, enabled = True,
              exit_stack = [File_resource ''sim.vcd'', Writer_resource ''sim.vcd''],
              include_re = Some [re_compile (RStar RAny)], exclude_re = Some [],
              max_level = None, format_str = None, ts_unit = None,
              log_file = None, vcd = Some ''sim.vcd''\<rparr>"

text \<open>A tracer whose include list is \<^verbatim>\<open>['sim.queue']\<close> and whose exclude list is
  \<^verbatim>\<open>['sim.queue.x']\<close>.\<close>

definition vcd_filtered :: tracer where
  "vcd_filtered = vcd_on\<lparr>include_re := Some [re_compile pat_sim_queue],
                         exclude_re := Some [re_compile pat_sim_queue_x]\<rparr>"

text \<open>Both tracers enabled, the log format set to \<^verbatim>\<open>{who}: {message}\<close>; the tracers
  and the manager built from it.\<close>

definition env_who :: env where
  "env_who =
     \<lparr>config =
        \<lparr>flags = [''sim.log.enable'' \<mapsto> True, ''sim.vcd.enable'' \<mapsto> True],
         strs = [''sim.log.file'' \<mapsto> ''sim.log'', ''sim.vcd.dump_file'' \<mapsto> ''sim.vcd'',
                 ''sim.log.format'' \<mapsto> ''{who}: {message}''],
         pats = Map.empty\<rparr>,
      timescale = (1, ''us'')\<rparr>"

definition log_who :: tracer where
  "log_who = log_on\<lparr>format_str := Some ''{who}: {message}''\<rparr>"

definition tm_who :: trace_manager where
  "tm_who = \<lparr>log_tracer = log_who, vcd_tracer = vcd_on\<rparr>"

text \<open>A choice for what lies beyond the modelled fragment of \<^verbatim>\<open>str.format\<close>: it
  returns.\<close>

definition ext_returns :: "rendered \<Rightarrow> error option" where
  "ext_returns r = None"

section \<open>Reading the recorded events\<close>

text \<open>The names of the tracers whose \<^verbatim>\<open>activate_probe\<close> was called, in order, and the
  calls of \<^verbatim>\<open>probe.attach\<close>.\<close>

fun activated :: "event list \<Rightarrow> string list" where
  "activated [] = []"
| "activated (Probe_activated n # es) = n # activated es"
| "activated (e # es) = activated es"

fun attachments :: "event list \<Rightarrow> event list" where
  "attachments [] = []"
| "attachments (Attached s t cbs hs # es) = Attached s t cbs hs # attachments es"
| "attachments (e # es) = attachments es"

text \<open>The specification's side of \<^verbatim>\<open>auto_probe\<close>: a tracer qualifies when its name is a
  key of the hints and its \<^verbatim>\<open>is_scope_enabled(scope)\<close> is true; the collected callbacks
  are the ones the qualifying tracers return, \<^verbatim>\<open>None\<close> left out. A tracer raises when
  the loop reaches a call on it that ends in an exception.\<close>

definition qualifies :: "string \<Rightarrow> hints \<Rightarrow> tracer \<Rightarrow> bool" where
  "qualifies scope hs t \<longleftrightarrow>
     hs (name (cls t)) \<noteq> None \<and> is_scope_enabled t scope = Inr True"

definition collected :: "tracer list \<Rightarrow> string \<Rightarrow> target \<Rightarrow> hints \<Rightarrow> callback list" where
  "collected ts scope tgt hs =
     concat (map (\<lambda>t. case activate_probe t scope tgt hs of
                         Inr (es, Some c) \<Rightarrow> [c] | _ \<Rightarrow> [])
               (filter (qualifies scope hs) ts))"

definition raises :: "string \<Rightarrow> target \<Rightarrow> hints \<Rightarrow> tracer \<Rightarrow> bool" where
  "raises scope tgt hs t \<longleftrightarrow>
     hs (name (cls t)) \<noteq> None \<and>
     (case is_scope_enabled t scope of
        Inl err \<Rightarrow> True
      | Inr False \<Rightarrow> False
      | Inr True \<Rightarrow> (case activate_probe t scope tgt hs of Inl err \<Rightarrow> True | Inr r \<Rightarrow> False))"

text \<open>The managers built from \<open>env_on\<close> and \<open>env_off\<close>, and hints for both tracers.\<close>

definition tm_on :: trace_manager where
  "tm_on = \<lparr>log_tracer = log_on, vcd_tracer = vcd_on\<rparr>"

definition tm_off :: trace_manager where
  "tm_off = \<lparr>log_tracer = log_off, vcd_tracer = vcd_off\<rparr>"

definition hints_both :: hints where
  "hints_both = [''log'' \<mapsto> Map.empty, ''vcd'' \<mapsto> Map.empty]"

text \<open>The variable registered for the scope \<^verbatim>\<open>sim.tank.level\<close> on a container whose
  level is the integer 3, without hints.\<close>

definition var_tank :: var where
  "var_tank = \<lparr>var_meth = Register_int, var_scope = ''sim.tank'', var_name = ''level'',
               var_kwargs = [(''init'', PInt 3)]\<rparr>"

text \<open>The calls of \<^verbatim>\<open>print\<close> among the events: destination, rendered line, extra
  arguments.\<close>

fun prints :: "event list \<Rightarrow> (sink \<times> rendered \<times> pyval list) list" where
  "prints [] = []"
| "prints (Printed s l a # es) = (s, l, a) # prints es"
| "prints (e # es) = prints es"

text \<open>The formatted traceback of a \<^verbatim>\<open>ValueError('boom')\<close> raised in the simulation.\<close>

definition exc_boom :: exc_info where
  "exc_boom = \<lparr>tb_front = [''Traceback (most recent call last):'', ''  File model.py, line 7''],
               tb_last = ''ValueError: boom''\<rparr>"

section \<open>The matcher decides prefix membership\<close>

lemma accepts_empty_words: "accepts_empty r \<longleftrightarrow> [] \<in> words r"
  by (induction r) (auto intro: rep.rep_nil)

lemma rep_cons_elim:
  assumes "x \<in> rep A" "x = c # w"
  shows "\<exists>u v. w = u @ v \<and> c # u \<in> A \<and> v \<in> rep A"
  using assms
proof (induction arbitrary: w rule: rep.induct)
  case rep_nil
  then show ?case by simp
next
  case (rep_app u v)
  show ?case
  proof (cases u)
    case Nil
    with rep_app show ?thesis by simp
  next
    case (Cons d u')
    with rep_app.prems have "d = c" "w = u' @ v" by simp_all
    with Cons rep_app.hyps show ?thesis by blast
  qed
qed

lemma rep_cons: "c # w \<in> rep A \<longleftrightarrow> (\<exists>u v. w = u @ v \<and> c # u \<in> A \<and> v \<in> rep A)"
proof
  assume "c # w \<in> rep A"
  then show "\<exists>u v. w = u @ v \<and> c # u \<in> A \<and> v \<in> rep A"
    by (rule rep_cons_elim) simp
next
  assume "\<exists>u v. w = u @ v \<and> c # u \<in> A \<and> v \<in> rep A"
  then obtain u v where "w = u @ v" "c # u \<in> A" "v \<in> rep A" by blast
  then have "(c # u) @ v \<in> rep A" by (intro rep.rep_app)
  with \<open>w = u @ v\<close> show "c # w \<in> rep A" by simp
qed

lemma after_char_words: "w \<in> words (after_char c r) \<longleftrightarrow> c # w \<in> words r"
proof (induction r arbitrary: w)
  case (RSeq r s)
  then show ?case
    by (auto simp: accepts_empty_words Cons_eq_append_conv)
next
  case (RStar r)
  then show ?case by (auto simp: rep_cons)
qed auto

lemma re_match_prefix: "re_match r s \<longleftrightarrow> (\<exists>u v. s = u @ v \<and> u \<in> words r)"
proof (induction s arbitrary: r)
  case Nil
  then show ?case by (simp add: accepts_empty_words)
next
  case (Cons c cs)
  note IH = Cons.IH
  show ?case
  proof
    assume "re_match r (c # cs)"
    then consider "accepts_empty r" | "re_match (after_char c r) cs" by auto
    then show "\<exists>u v. c # cs = u @ v \<and> u \<in> words r"
    proof cases
      case 1
      then have "[] \<in> words r" by (simp add: accepts_empty_words)
      then show ?thesis by fastforce
    next
      case 2
      then obtain u v where "cs = u @ v" "u \<in> words (after_char c r)"
        using IH by blast
      then have "c # cs = (c # u) @ v" "c # u \<in> words r"
        by (simp_all add: after_char_words)
      then show ?thesis by blast
    qed
  next
    assume "\<exists>u v. c # cs = u @ v \<and> u \<in> words r"
    then obtain u v where uv: "c # cs = u @ v" "u \<in> words r" by blast
    show "re_match r (c # cs)"
    proof (cases u)
      case Nil
      with uv have "accepts_empty r" by (simp add: accepts_empty_words)
      then show ?thesis by simp
    next
      case (Cons d u')
      with uv have "cs = u' @ v" "u' \<in> words (after_char c r)"
        by (simp_all add: after_char_words)
      then have "re_match (after_char c r) cs" using IH by blast
      then show ?thesis by simp
    qed
  qed
qed

lemma re_match_star_any: "re_match (RStar RAny) s"
  by (cases s) simp_all

section \<open>Facts about construction\<close>

lemma tracer_open_frame:
  assumes "tracer_open e t = Inr (evs, t1)"
  shows "enabled t1 = enabled t \<and> cls t1 = cls t \<and> include_re t1 = include_re t
         \<and> exclude_re t1 = exclude_re t"
  using assms
  by (auto simp: tracer_open_def LogTracer_open_def VCDTracer_open_def Let_def
           split: tracer_class.splits sum.splits option.splits if_splits prod.splits)

lemma Tracer_init_fields:
  assumes "Tracer_init c e = Inr (evs, t)"
  shows "cls t = c"
    and "enabled t = (case flags (config e) (''sim.'' @ name c @ ''.enable'') of
                        None \<Rightarrow> False | Some b \<Rightarrow> b)"
    and "enabled t \<Longrightarrow> include_re t = Some (map re_compile
           (case pats (config e) (''sim.'' @ name c @ ''.include_pat'') of
              None \<Rightarrow> [RStar RAny] | Some ps \<Rightarrow> ps))"
    and "enabled t \<Longrightarrow> exclude_re t = Some (map re_compile
           (case pats (config e) (''sim.'' @ name c @ ''.exclude_pat'') of
              None \<Rightarrow> [] | Some ps \<Rightarrow> ps))"
  using assms
  by (auto simp: Tracer_init_def Let_def dest!: tracer_open_frame
           split: if_splits sum.splits prod.splits)

lemma init_log_off: "Tracer_init LogTracer_class env_off = Inr ([], log_off)"
  by (simp add: Tracer_init_def env_off_def log_off_def)

lemma init_vcd_off: "Tracer_init VCDTracer_class env_off = Inr ([], vcd_off)"
  by (simp add: Tracer_init_def env_off_def vcd_off_def)

lemma init_log_on: "Tracer_init LogTracer_class env_on = Inr ([Opened ''sim.log''], log_on)"
  by (simp add: Tracer_init_def env_on_def log_on_def tracer_open_def LogTracer_open_def
        level_rank_def levels_def)

lemma init_vcd_on:
  "Tracer_init VCDTracer_class env_on =
     Inr ([Opened ''sim.vcd'', Writer_created ''sim.vcd'' (1, ''us'') True], vcd_on)"
  by (simp add: Tracer_init_def env_on_def vcd_on_def tracer_open_def VCDTracer_open_def)

section \<open>The scope filter\<close>

text \<open>
  Claim C2. For an enabled tracer with compiled include list \<open>inc\<close> and exclude list
  \<open>exc\<close>, \<^verbatim>\<open>is_scope_enabled(S)\<close> returns true iff some pattern of \<open>inc\<close> matches \<open>S\<close> and no
  pattern of \<open>exc\<close> does. When the tracer was constructed from a configuration without
  an \<^verbatim>\<open>include_pat\<close> key, \<open>inc\<close> is the single pattern \<^verbatim>\<open>.*\<close>, which matches every
  scope; without an \<^verbatim>\<open>exclude_pat\<close> key, \<open>exc\<close> is empty. A compiled pattern matches a
  string iff one of the words it denotes is a prefix of the string (anchored at the
  start, free at the end), and the pattern \<^verbatim>\<open>sim.queue\<close> matches the scope
  \<^verbatim>\<open>sim.queue.depth\<close>.
\<close>

theorem scope_filter:
  assumes "enabled t" and "include_re t = Some inc" and "exclude_re t = Some exc"
  shows "Tracer_is_scope_enabled t S = Inr ((\<exists>p\<in>set inc. p S) \<and> \<not> (\<exists>p\<in>set exc. p S))
       \<and> (Tracer_init c e = Inr (evs, t)
            \<and> pats (config e) (''sim.'' @ name c @ ''.include_pat'') = None
          \<longrightarrow> inc = [re_compile (RStar RAny)])
       \<and> (Tracer_init c e = Inr (evs, t)
            \<and> pats (config e) (''sim.'' @ name c @ ''.exclude_pat'') = None
          \<longrightarrow> exc = [])
       \<and> (\<forall>s. re_compile (RStar RAny) s)
       \<and> (\<forall>r s. re_compile r s \<longleftrightarrow> (\<exists>u v. s = u @ v \<and> u \<in> words r))
       \<and> re_compile pat_sim_queue ''sim.queue.depth''"
proof -
  have filter: "Tracer_is_scope_enabled t S
                  = Inr ((\<exists>p\<in>set inc. p S) \<and> \<not> (\<exists>p\<in>set exc. p S))"
    using assms by (auto simp: Tracer_is_scope_enabled_def list_ex_iff)
  have inc_default: "inc = [re_compile (RStar RAny)]"
    if "Tracer_init c e = Inr (evs, t)"
      and "pats (config e) (''sim.'' @ name c @ ''.include_pat'') = None"
    using Tracer_init_fields(3)[OF that(1) assms(1)] that(2) assms(2) by simp
  have exc_default: "exc = []"
    if "Tracer_init c e = Inr (evs, t)"
      and "pats (config e) (''sim.'' @ name c @ ''.exclude_pat'') = None"
    using Tracer_init_fields(4)[OF that(1) assms(1)] that(2) assms(3) by simp
  have all: "\<forall>s. re_compile (RStar RAny) s"
    by (simp add: re_compile_def re_match_star_any)
  have prefix: "\<forall>r s. re_compile r s \<longleftrightarrow> (\<exists>u v. s = u @ v \<and> u \<in> words r)"
    by (simp add: re_compile_def re_match_prefix)
  have example: "re_compile pat_sim_queue ''sim.queue.depth''"
    by (simp add: re_compile_def pat_sim_queue_def)
  from filter inc_default exc_default all prefix example show ?thesis by blast
qed

theorem scope_filter_witness:
  "enabled vcd_filtered
   \<and> Tracer_is_scope_enabled vcd_filtered ''sim.queue.depth'' = Inr True
   \<and> Tracer_is_scope_enabled vcd_filtered ''sim.queue.x'' = Inr False
   \<and> Tracer_is_scope_enabled vcd_filtered ''sim.net'' = Inr False
   \<and> Tracer_init VCDTracer_class env_on
       = Inr ([Opened ''sim.vcd'', Writer_created ''sim.vcd'' (1, ''us'') True], vcd_on)
   \<and> include_re vcd_on = Some [re_compile (RStar RAny)]
   \<and> exclude_re vcd_on = Some []
   \<and> Tracer_is_scope_enabled vcd_on ''sim.net'' = Inr True"
proof -
  have f: "enabled vcd_filtered" "include_re vcd_filtered = Some [re_compile pat_sim_queue]"
    "exclude_re vcd_filtered = Some [re_compile pat_sim_queue_x]"
    by (simp_all add: vcd_filtered_def vcd_on_def)
  have m: "re_compile pat_sim_queue ''sim.queue.depth''"
    "\<not> re_compile pat_sim_queue_x ''sim.queue.depth''"
    "re_compile pat_sim_queue ''sim.queue.x''"
    "re_compile pat_sim_queue_x ''sim.queue.x''"
    "\<not> re_compile pat_sim_queue ''sim.net''"
    by (simp_all add: re_compile_def pat_sim_queue_def pat_sim_queue_x_def)
  have o: "enabled vcd_on" "include_re vcd_on = Some [re_compile (RStar RAny)]"
    "exclude_re vcd_on = Some []"
    by (simp_all add: vcd_on_def)
  have i: "Tracer_init VCDTracer_class env_on
       = Inr ([Opened ''sim.vcd'', Writer_created ''sim.vcd'' (1, ''us'') True], vcd_on)"
    by (rule init_vcd_on)
  show ?thesis
    using scope_filter [OF f, of "''sim.queue.depth''"]
      scope_filter [OF f, of "''sim.queue.x''"]
      scope_filter [OF f, of "''sim.net''"]
      scope_filter [OF o, of "''sim.net''" VCDTracer_class env_on]
      f(1) m o i
    by simp
qed

section \<open>Severity filtering of the log tracer\<close>






section \<open>Dispatch of a probe request\<close>

lemma activated_append: "activated (xs @ ys) = activated xs @ activated ys"
  by (induction xs rule: activated.induct) simp_all

lemma attachments_append: "attachments (xs @ ys) = attachments xs @ attachments ys"
  by (induction xs rule: attachments.induct) simp_all

lemma activate_probe_events:
  assumes "activate_probe t scope tgt hs = Inr (es, cb)"
  shows "activated es = [] \<and> attachments es = []"
  using assms
  by (auto simp: activate_probe_def LogTracer_activate_probe_def VCDTracer_activate_probe_def
        Let_def
      split: tracer_class.splits sum.splits bool.splits option.splits if_splits list.splits
        prod.splits)

lemma probe_loop_returns:
  assumes "\<forall>t\<in>set ts. \<not> raises scope tgt hs t"
  shows "\<exists>evs'. probe_loop ts scope tgt hs cbs evs
                   = (evs', Inr (cbs @ collected ts scope tgt hs))
           \<and> activated evs' = activated evs @ map (name \<circ> cls) (filter (qualifies scope hs) ts)
           \<and> attachments evs' = attachments evs"
  using assms
proof (induction ts arbitrary: cbs evs)
  case Nil
  then show ?case by (simp add: collected_def)
next
  case (Cons t ts)
  then have tl: "\<forall>t\<in>set ts. \<not> raises scope tgt hs t" and hd: "\<not> raises scope tgt hs t"
    by simp_all
  note IH = Cons.IH[OF tl]
  show ?case
  proof (cases "qualifies scope hs t")
    case False
    with hd have step: "probe_loop (t # ts) scope tgt hs cbs evs = probe_loop ts scope tgt hs cbs evs"
      by (auto simp: qualifies_def raises_def split: sum.splits bool.splits)
    from False have col: "collected (t # ts) scope tgt hs = collected ts scope tgt hs"
      by (simp add: collected_def)
    from IH[of cbs evs] step col False show ?thesis by simp
  next
    case True
    with hd obtain es cb where ap: "activate_probe t scope tgt hs = Inr (es, cb)"
      by (auto simp: qualifies_def raises_def split: sum.splits)
    let ?c = "case cb of None \<Rightarrow> [] | Some c \<Rightarrow> [c]"
    from True ap have step: "probe_loop (t # ts) scope tgt hs cbs evs
        = probe_loop ts scope tgt hs (cbs @ ?c) (evs @ [Probe_activated (name (cls t))] @ es)"
      by (simp add: qualifies_def)
    from True ap have col: "collected (t # ts) scope tgt hs = ?c @ collected ts scope tgt hs"
      by (simp add: collected_def split: option.splits)
    from activate_probe_events[OF ap] have ev: "activated es = []" "attachments es = []"
      by simp_all
    from IH[of "cbs @ ?c" "evs @ [Probe_activated (name (cls t))] @ es"] step col True ev
    show ?thesis by (simp add: activated_append attachments_append)
  qed
qed

lemma probe_loop_raises:
  assumes "\<exists>t\<in>set ts. raises scope tgt hs t"
  shows "\<exists>evs' err rest. probe_loop ts scope tgt hs cbs evs = (evs', Inl err)
           \<and> activated evs @ map (name \<circ> cls) (filter (qualifies scope hs) ts)
               = activated evs' @ rest
           \<and> attachments evs' = attachments evs"
  using assms
proof (induction ts arbitrary: cbs evs)
  case Nil
  then show ?case by simp
next
  case (Cons t ts)
  show ?case
  proof (cases "raises scope tgt hs t")
    case True
    then have key: "hs (name (cls t)) \<noteq> None" by (simp add: raises_def)
    show ?thesis
    proof (cases "is_scope_enabled t scope")
      case (Inl err)
      with key have "probe_loop (t # ts) scope tgt hs cbs evs = (evs, Inl err)" by simp
      then show ?thesis by simp
    next
      case (Inr b)
      with True have b: "b" and "\<exists>err. activate_probe t scope tgt hs = Inl err"
        by (auto simp: raises_def split: bool.splits sum.splits)
      then obtain err where ap: "activate_probe t scope tgt hs = Inl err" by blast
      from key Inr b ap have
        "probe_loop (t # ts) scope tgt hs cbs evs
           = (evs @ [Probe_activated (name (cls t))], Inl err)"
        by simp
      moreover from key Inr b have "qualifies scope hs t" by (simp add: qualifies_def)
      ultimately show ?thesis by (simp add: activated_append attachments_append)
    qed
  next
    case False
    with Cons.prems have tl: "\<exists>t\<in>set ts. raises scope tgt hs t" by auto
    note IH = Cons.IH[OF tl]
    show ?thesis
    proof (cases "qualifies scope hs t")
      case q: False
      with False have step:
        "probe_loop (t # ts) scope tgt hs cbs evs = probe_loop ts scope tgt hs cbs evs"
        by (auto simp: qualifies_def raises_def split: sum.splits bool.splits)
      from IH[of cbs evs] step q show ?thesis by simp
    next
      case q: True
      with False obtain es cb where ap: "activate_probe t scope tgt hs = Inr (es, cb)"
        by (auto simp: qualifies_def raises_def split: sum.splits)
      let ?c = "case cb of None \<Rightarrow> [] | Some c \<Rightarrow> [c]"
      from q ap have step: "probe_loop (t # ts) scope tgt hs cbs evs
          = probe_loop ts scope tgt hs (cbs @ ?c) (evs @ [Probe_activated (name (cls t))] @ es)"
        by (simp add: qualifies_def)
      from activate_probe_events[OF ap] have ev: "activated es = []" "attachments es = []"
        by simp_all
      from IH[of "cbs @ ?c" "evs @ [Probe_activated (name (cls t))] @ es"] step q ev
      show ?thesis by (simp add: activated_append attachments_append)
    qed
  qed
qed

text \<open>
  Claim C1. For every call \<^verbatim>\<open>auto_probe(scope, target, hints)\<close>: when the call returns,
  the tracers whose \<^verbatim>\<open>activate_probe\<close> was invoked are, in order and once each, exactly
  those whose name is a key of the hints and whose \<^verbatim>\<open>is_scope_enabled(scope)\<close> is true;
  \<^verbatim>\<open>probe.attach\<close> is called once, with the callbacks that are not \<^verbatim>\<open>None\<close>, exactly
  when there is such a callback, and not at all otherwise. The call returns unless a
  call it makes on a tracer raises; when one raises, the invocations made so far are an
  initial part of the qualifying tracers and nothing is attached.
\<close>

theorem auto_probe_dispatch:
  "case auto_probe tm scope tgt hs of
     (evs, None) \<Rightarrow>
        activated evs = map (name \<circ> cls) (filter (qualifies scope hs) (tracers tm))
      \<and> attachments evs =
          (if collected (tracers tm) scope tgt hs \<noteq> []
           then [Attached scope tgt (collected (tracers tm) scope tgt hs) hs] else [])
      \<and> (\<forall>t\<in>set (tracers tm). \<not> raises scope tgt hs t)
   | (evs, Some err) \<Rightarrow>
        (\<exists>rest. map (name \<circ> cls) (filter (qualifies scope hs) (tracers tm))
                  = activated evs @ rest)
      \<and> attachments evs = []
      \<and> (\<exists>t\<in>set (tracers tm). raises scope tgt hs t)"
proof (cases "\<exists>t\<in>set (tracers tm). raises scope tgt hs t")
  case True
  from probe_loop_raises[OF True, of "[]" "[]"] obtain evs' err rest where
    "probe_loop (tracers tm) scope tgt hs [] [] = (evs', Inl err)"
    "map (name \<circ> cls) (filter (qualifies scope hs) (tracers tm)) = activated evs' @ rest"
    "attachments evs' = []"
    by auto
  with True show ?thesis by (auto simp: auto_probe_def)
next
  case False
  then have nr: "\<forall>t\<in>set (tracers tm). \<not> raises scope tgt hs t" by simp
  from probe_loop_returns[OF nr, of "[]" "[]"] obtain evs' where
    "probe_loop (tracers tm) scope tgt hs [] []
       = (evs', Inr (collected (tracers tm) scope tgt hs))"
    "activated evs' = map (name \<circ> cls) (filter (qualifies scope hs) (tracers tm))"
    "attachments evs' = []"
    by auto
  with nr show ?thesis
    by (auto simp: auto_probe_def activated_append attachments_append)
qed

lemma log_on_scope: "is_scope_enabled log_on ''sim.tank.level'' = Inr True"
  by (simp add: is_scope_enabled_def LogTracer_is_scope_enabled_def
        Tracer_is_scope_enabled_def log_on_def re_compile_def)

lemma vcd_on_scope: "is_scope_enabled vcd_on ''sim.tank.level'' = Inr True"
  by (simp add: is_scope_enabled_def Tracer_is_scope_enabled_def vcd_on_def re_compile_def)

lemma log_on_activate:
  "activate_probe log_on ''sim.tank.level'' (Container (PInt 3)) hints_both = Inr ([], None)"
  by (simp add: activate_probe_def LogTracer_activate_probe_def hints_both_def
        LogTracer_is_scope_enabled_def level_rank_def levels_def log_on_def)

lemma vcd_on_activate:
  "activate_probe vcd_on ''sim.tank.level'' (Container (PInt 3)) hints_both
     = Inr ([Registered var_tank], Some (Vcd_probe_callback vcd_on var_tank))"
  by (simp add: activate_probe_def VCDTracer_activate_probe_def hints_both_def
        resolve_var_type_def is_float_def hint_kwargs_def select_register_def
        default_init_def rsplit_dot_def var_tank_def vcd_on_def Let_def)

lemma hints_both_keys: "hints_both ''log'' \<noteq> None" "hints_both ''vcd'' \<noteq> None"
  by (simp_all add: hints_both_def)

lemma cls_on: "cls log_on = LogTracer_class" "cls vcd_on = VCDTracer_class"
  by (simp_all add: log_on_def vcd_on_def)

lemma auto_probe_tank:
  "auto_probe tm_on ''sim.tank.level'' (Container (PInt 3)) hints_both
     = ([Probe_activated ''log'', Probe_activated ''vcd'', Registered var_tank,
         Attached ''sim.tank.level'' (Container (PInt 3))
           [Vcd_probe_callback vcd_on var_tank] hints_both], None)"
  by (simp add: auto_probe_def tracers_def tm_on_def cls_on hints_both_keys
        log_on_scope vcd_on_scope log_on_activate vcd_on_activate)

theorem auto_probe_dispatch_witness:
  "snd (auto_probe tm_on ''sim.tank.level'' (Container (PInt 3)) hints_both) = None
   \<and> map (name \<circ> cls) (filter (qualifies ''sim.tank.level'' hints_both) (tracers tm_on))
       = [''log'', ''vcd'']
   \<and> activated (fst (auto_probe tm_on ''sim.tank.level'' (Container (PInt 3)) hints_both))
       = [''log'', ''vcd'']
   \<and> collected (tracers tm_on) ''sim.tank.level'' (Container (PInt 3)) hints_both
       = [Vcd_probe_callback vcd_on var_tank]
   \<and> attachments (fst (auto_probe tm_on ''sim.tank.level'' (Container (PInt 3)) hints_both))
       = [Attached ''sim.tank.level'' (Container (PInt 3))
            [Vcd_probe_callback vcd_on var_tank] hints_both]"
proof -
  have q: "qualifies ''sim.tank.level'' hints_both log_on"
    "qualifies ''sim.tank.level'' hints_both vcd_on"
    by (simp_all add: qualifies_def cls_on hints_both_keys log_on_scope vcd_on_scope)
  have qs: "map (name \<circ> cls) (filter (qualifies ''sim.tank.level'' hints_both) (tracers tm_on))
       = [''log'', ''vcd'']"
    using q by (simp add: tracers_def tm_on_def cls_on)
  have c: "collected (tracers tm_on) ''sim.tank.level'' (Container (PInt 3)) hints_both
       = [Vcd_probe_callback vcd_on var_tank]"
    using q by (simp add: collected_def tracers_def tm_on_def log_on_activate vcd_on_activate)
  show ?thesis
    using auto_probe_dispatch [where tm = tm_on and scope = "''sim.tank.level''"
          and tgt = "Container (PInt 3)" and hs = hints_both]
      qs c
    by (simp add: auto_probe_tank)
qed

section \<open>A disabled tracer\<close>

lemma auto_probe_activated_qualify:
  assumes "n \<in> set (activated (fst (auto_probe tm scope tgt hs)))"
  shows "\<exists>t\<in>set (tracers tm). name (cls t) = n \<and> qualifies scope hs t"
proof -
  let ?Q = "map (name \<circ> cls) (filter (qualifies scope hs) (tracers tm))"
  have "\<exists>rest. ?Q = activated (fst (auto_probe tm scope tgt hs)) @ rest"
  proof (cases "\<exists>t\<in>set (tracers tm). raises scope tgt hs t")
    case True
    from probe_loop_raises[OF True, of "[]" "[]"] show ?thesis
      by (auto simp: auto_probe_def)
  next
    case False
    then have nr: "\<forall>t\<in>set (tracers tm). \<not> raises scope tgt hs t" by simp
    from probe_loop_returns[OF nr, of "[]" "[]"] show ?thesis
      by (auto simp: auto_probe_def activated_append)
  qed
  then obtain rest where "?Q = activated (fst (auto_probe tm scope tgt hs)) @ rest"
    by blast
  then have "set ?Q = set (activated (fst (auto_probe tm scope tgt hs))) \<union> set rest"
    by (metis set_append)
  with assms have "n \<in> set ?Q" by blast
  then show ?thesis by auto
qed

lemma TraceManager_init_tracers:
  assumes "TraceManager_init e = Inr (evs0, tm)"
  shows "\<exists>e1 e2. Tracer_init LogTracer_class e = Inr (e1, log_tracer tm)
               \<and> Tracer_init VCDTracer_class e = Inr (e2, vcd_tracer tm)"
  using assms by (auto simp: TraceManager_init_def split: sum.splits prod.splits)

lemma name_inject: "name c = name d \<longleftrightarrow> c = d"
  by (cases c; cases d) simp_all

text \<open>
  Claim C9. A tracer constructed from a configuration whose \<^verbatim>\<open>enable\<close> key is missing
  or false is constructed without any event: \<^verbatim>\<open>open\<close> is not called, its exit stack is
  empty, no pattern list and no output attribute is set. Its
  \<^verbatim>\<open>is_scope_enabled(scope)\<close> is false for every scope, and no \<^verbatim>\<open>auto_probe\<close> call on
  the manager built from that configuration invokes its \<^verbatim>\<open>activate_probe\<close>.
\<close>

theorem disabled_tracer_costs_nothing:
  assumes off: "flags (config e) (''sim.'' @ name c @ ''.enable'') \<in> {None, Some False}"
  shows "\<exists>t. Tracer_init c e = Inr ([], t)
     \<and> \<not> enabled t \<and> cls t = c \<and> exit_stack t = []
     \<and> include_re t = None \<and> exclude_re t = None \<and> max_level t = None
     \<and> format_str t = None \<and> ts_unit t = None \<and> log_file t = None \<and> vcd t = None
     \<and> (\<forall>S. is_scope_enabled t S = Inr False)
     \<and> (\<forall>evs0 tm scope tgt hs.
           TraceManager_init e = Inr (evs0, tm) \<longrightarrow>
           name c \<notin> set (activated (fst (auto_probe tm scope tgt hs))))"
proof -
  define t where "t = \<lparr>cls = c, enabled = False, exit_stack = [], include_re = None,
                exclude_re = None, max_level = None, format_str = None, ts_unit = None,
                log_file = None, vcd = None\<rparr>"
  from off have init: "Tracer_init c e = Inr ([], t)"
    by (auto simp: Tracer_init_def t_def)
  have fields: "\<not> enabled t \<and> cls t = c \<and> exit_stack t = []
     \<and> include_re t = None \<and> exclude_re t = None \<and> max_level t = None
     \<and> format_str t = None \<and> ts_unit t = None \<and> log_file t = None \<and> vcd t = None"
    by (simp add: t_def)
  have never: "is_scope_enabled t S = Inr False" for S
    by (simp add: is_scope_enabled_def LogTracer_is_scope_enabled_def
          Tracer_is_scope_enabled_def t_def split: tracer_class.splits)
  have no_call: "name c \<notin> set (activated (fst (auto_probe tm scope tgt hs)))"
    if tm: "TraceManager_init e = Inr (evs0, tm)" for evs0 tm scope tgt hs
  proof
    assume "name c \<in> set (activated (fst (auto_probe tm scope tgt hs)))"
    from auto_probe_activated_qualify[OF this] obtain t' where
      t': "t' \<in> set (tracers tm)" "name (cls t') = name c" "qualifies scope hs t'"
      by blast
    from TraceManager_init_tracers[OF tm] obtain e1 e2 where
      l: "Tracer_init LogTracer_class e = Inr (e1, log_tracer tm)" and
      v: "Tracer_init VCDTracer_class e = Inr (e2, vcd_tracer tm)"
      by blast
    from t'(2) have c: "cls t' = c" by (simp add: name_inject)
    from t'(1) have "t' = log_tracer tm \<or> t' = vcd_tracer tm" by (simp add: tracers_def)
    then have "Tracer_init c e = Inr (e1, t') \<or> Tracer_init c e = Inr (e2, t')"
      using l v c Tracer_init_fields(1)[OF l] Tracer_init_fields(1)[OF v] by auto
    with init have "t' = t" by auto
    with t'(3) never show False by (simp add: qualifies_def)
  qed
  from init fields never no_call show ?thesis by blast
qed

lemma TraceManager_init_off: "TraceManager_init env_off = Inr ([], tm_off)"
  by (simp add: TraceManager_init_def init_log_off init_vcd_off tm_off_def)

theorem disabled_tracer_costs_nothing_witness:
  "flags (config env_off) (''sim.'' @ name LogTracer_class @ ''.enable'') \<in> {None, Some False}
   \<and> Tracer_init LogTracer_class env_off = Inr ([], log_off)
   \<and> TraceManager_init env_off = Inr ([], tm_off)
   \<and> is_scope_enabled log_off ''sim.tank.level'' = Inr False
   \<and> ''log'' \<notin> set (activated (fst (auto_probe tm_off ''sim.tank.level''
                                         (Container (PInt 3)) hints_both)))"
proof -
  have off: "flags (config env_off) (''sim.'' @ name LogTracer_class @ ''.enable'')
               \<in> {None, Some False}"
    by (simp add: env_off_def)
  from disabled_tracer_costs_nothing[OF off] obtain t where
    t: "Tracer_init LogTracer_class env_off = Inr ([], t)"
       "\<forall>S. is_scope_enabled t S = Inr False"
       "\<forall>evs0 tm scope tgt hs.
           TraceManager_init env_off = Inr (evs0, tm) \<longrightarrow>
           name LogTracer_class \<notin> set (activated (fst (auto_probe tm scope tgt hs)))"
    by blast
  from t(1) have eq: "t = log_off" by (simp add: init_log_off)
  from t(3) TraceManager_init_off have
    "name LogTracer_class \<notin> set (activated (fst (auto_probe tm_off ''sim.tank.level''
                                         (Container (PInt 3)) hints_both)))"
    by blast
  with off t(2) eq init_log_off TraceManager_init_off show ?thesis by simp
qed

section \<open>Facts about the signal tracer\<close>

lemma rsplit_dot_no_dot:
  assumes "CHR ''.'' \<notin> set s"
  shows "rsplit_dot s = [s]"
proof -
  from assms have d: "dropWhile (\<lambda>c. c \<noteq> CHR ''.'') (rev s) = []"
    by auto
  show ?thesis by (simp add: rsplit_dot_def d)
qed

lemma rsplit_dot_last:
  assumes "CHR ''.'' \<notin> set n"
  shows "rsplit_dot (p @ ''.'' @ n) = [p, n]"
proof -
  let ?P = "\<lambda>c. c \<noteq> CHR ''.''"
  have r: "rev (p @ ''.'' @ n) = rev n @ CHR ''.'' # rev p" by simp
  from assms have a: "\<forall>x\<in>set (rev n). ?P x" by auto
  have "takeWhile ?P (rev n @ CHR ''.'' # rev p) = rev n @ takeWhile ?P (CHR ''.'' # rev p)"
    using a by (intro takeWhile_append2) blast
  then have t: "takeWhile ?P (rev n @ CHR ''.'' # rev p) = rev n" by simp
  have "dropWhile ?P (rev n @ CHR ''.'' # rev p) = dropWhile ?P (CHR ''.'' # rev p)"
    using a by (intro dropWhile_append2) blast
  then have d: "dropWhile ?P (rev n @ CHR ''.'' # rev p) = CHR ''.'' # rev p" by simp
  show ?thesis
    unfolding rsplit_dot_def r Let_def t d by simp
qed

lemma select_register_kwargs:
  assumes "select_register t vt kw = Inr (m, kw')"
  shows "kw' = kw"
  using assms by (auto simp: select_register_def split: if_splits option.splits)

lemma select_register_meth:
  assumes "vcd t = Some w"
  shows "select_register t (PStr ''integer'') kw = Inr (Register_int, kw)"
    and "select_register t (PStr ''real'') kw = Inr (Register_real, kw)"
    and "select_register t (PStr ''event'') kw = Inr (Register_event, kw)"
  using assms by (simp_all add: select_register_def)

lemma map_of_hint_kwargs: "map_of (hint_kwargs h) ''init'' = h ''init''"
  by (simp add: hint_kwargs_def split: option.splits)

lemma VCDTracer_activate_probe_Inr:
  assumes "VCDTracer_activate_probe t scope tgt hs = Inr (evs, cb)"
  shows "\<exists>vt m p n.
       enabled t
     \<and> resolve_var_type scope tgt (case hs ''vcd'' of None \<Rightarrow> Map.empty | Some h \<Rightarrow> h) = Inr vt
     \<and> select_register t vt (hint_kwargs (case hs ''vcd'' of None \<Rightarrow> Map.empty | Some h \<Rightarrow> h))
         = Inr (m, hint_kwargs (case hs ''vcd'' of None \<Rightarrow> Map.empty | Some h \<Rightarrow> h))
     \<and> rsplit_dot scope = [p, n]
     \<and> evs = [Registered \<lparr>var_meth = m, var_scope = p, var_name = n,
                var_kwargs = default_init tgt
                  (hint_kwargs (case hs ''vcd'' of None \<Rightarrow> Map.empty | Some h \<Rightarrow> h))\<rparr>]
     \<and> cb = Some (Vcd_probe_callback t \<lparr>var_meth = m, var_scope = p, var_name = n,
                var_kwargs = default_init tgt
                  (hint_kwargs (case hs ''vcd'' of None \<Rightarrow> Map.empty | Some h \<Rightarrow> h))\<rparr>)"
proof -
  let ?vh = "case hs ''vcd'' of None \<Rightarrow> Map.empty | Some h \<Rightarrow> h"
  from assms have en: "enabled t"
    by (auto simp: VCDTracer_activate_probe_def split: if_splits)
  from assms en obtain vt where vt: "resolve_var_type scope tgt ?vh = Inr vt"
    by (auto simp: VCDTracer_activate_probe_def Let_def split: sum.splits)
  from assms en vt obtain m kw where
    sel: "select_register t vt (hint_kwargs ?vh) = Inr (m, kw)"
    by (auto simp: VCDTracer_activate_probe_def Let_def split: sum.splits)
  from select_register_kwargs[OF sel] have kw: "kw = hint_kwargs ?vh" .
  from assms en vt sel obtain p n where pn: "rsplit_dot scope = [p, n]"
    by (auto simp: VCDTracer_activate_probe_def Let_def split: list.splits)
  from assms en vt sel pn kw show ?thesis
    by (auto simp: VCDTracer_activate_probe_def Let_def)
qed

section \<open>The kind of a signal\<close>

text \<open>
  Claim C3. In \<^verbatim>\<open>VCDTracer.activate_probe\<close> (on an enabled tracer, as the method
  asserts) the kind of the signal is resolved in this order: the \<^verbatim>\<open>var_type\<close> hint
  when the hints hold one that is not \<^verbatim>\<open>None\<close>; else, for a container, \<^verbatim>\<open>real\<close> when
  its level is a float and \<^verbatim>\<open>integer\<close> otherwise; else \<^verbatim>\<open>integer\<close> for a resource or a
  store; else a \<open>ValueError\<close> whose message ends with the scope, which is what the call
  raises. A resolved kind \<^verbatim>\<open>integer\<close>, \<^verbatim>\<open>real\<close> or \<^verbatim>\<open>event\<close> selects the writer's
  entry point of that name for the registration. In particular a container with an
  integer level and no hints resolves to \<^verbatim>\<open>integer\<close>, one with a float level to
  \<^verbatim>\<open>real\<close>.
\<close>

theorem var_type_resolution:
  assumes vh: "vh = (case hs ''vcd'' of None \<Rightarrow> Map.empty | Some h \<Rightarrow> h)"
    and en: "enabled t"
  shows "(\<forall>v. vh ''var_type'' = Some v \<and> v \<noteq> PNone
              \<longrightarrow> resolve_var_type scope tgt vh = Inr v)
       \<and> (vh ''var_type'' \<in> {None, Some PNone} \<longrightarrow>
            resolve_var_type scope tgt vh =
              (case tgt of
                 Container lv \<Rightarrow> Inr (PStr (if is_float lv then ''real'' else ''integer''))
               | Resource us cap \<Rightarrow> Inr (PStr ''integer'')
               | Store its \<Rightarrow> Inr (PStr ''integer'')
               | Other_target \<Rightarrow>
                   Inl (ValueError (''Could not infer VCD var_type for '' @ scope))))
       \<and> (\<forall>err. resolve_var_type scope tgt vh = Inl err
              \<longrightarrow> VCDTracer_activate_probe t scope tgt hs = Inl err)
       \<and> (\<forall>w p n. vcd t = Some w \<and> rsplit_dot scope = [p, n] \<longrightarrow>
            (resolve_var_type scope tgt vh = Inr (PStr ''integer'') \<longrightarrow>
               VCDTracer_activate_probe t scope tgt hs =
                 Inr ([Registered \<lparr>var_meth = Register_int, var_scope = p, var_name = n,
                         var_kwargs = default_init tgt (hint_kwargs vh)\<rparr>],
                      Some (Vcd_probe_callback t
                        \<lparr>var_meth = Register_int, var_scope = p, var_name = n,
                         var_kwargs = default_init tgt (hint_kwargs vh)\<rparr>)))
          \<and> (resolve_var_type scope tgt vh = Inr (PStr ''real'') \<longrightarrow>
               VCDTracer_activate_probe t scope tgt hs =
                 Inr ([Registered \<lparr>var_meth = Register_real, var_scope = p, var_name = n,
                         var_kwargs = default_init tgt (hint_kwargs vh)\<rparr>],
                      Some (Vcd_probe_callback t
                        \<lparr>var_meth = Register_real, var_scope = p, var_name = n,
                         var_kwargs = default_init tgt (hint_kwargs vh)\<rparr>)))
          \<and> (resolve_var_type scope tgt vh = Inr (PStr ''event'') \<longrightarrow>
               VCDTracer_activate_probe t scope tgt hs =
                 Inr ([Registered \<lparr>var_meth = Register_event, var_scope = p, var_name = n,
                         var_kwargs = default_init tgt (hint_kwargs vh)\<rparr>],
                      Some (Vcd_probe_callback t
                        \<lparr>var_meth = Register_event, var_scope = p, var_name = n,
                         var_kwargs = default_init tgt (hint_kwargs vh)\<rparr>))))
       \<and> (\<forall>i. vh = Map.empty \<longrightarrow>
              resolve_var_type scope (Container (PInt i)) vh = Inr (PStr ''integer''))
       \<and> (\<forall>x. vh = Map.empty \<longrightarrow>
              resolve_var_type scope (Container (PFloat x)) vh = Inr (PStr ''real''))"
proof -
  have explicit: "resolve_var_type scope tgt vh = Inr v"
    if "vh ''var_type'' = Some v" "v \<noteq> PNone" for v
    using that by (simp add: resolve_var_type_def)
  have inferred: "resolve_var_type scope tgt vh =
              (case tgt of
                 Container lv \<Rightarrow> Inr (PStr (if is_float lv then ''real'' else ''integer''))
               | Resource us cap \<Rightarrow> Inr (PStr ''integer'')
               | Store its \<Rightarrow> Inr (PStr ''integer'')
               | Other_target \<Rightarrow>
                   Inl (ValueError (''Could not infer VCD var_type for '' @ scope)))"
    if "vh ''var_type'' \<in> {None, Some PNone}"
    using that by (auto simp: resolve_var_type_def split: target.splits)
  have fails: "VCDTracer_activate_probe t scope tgt hs = Inl err"
    if "resolve_var_type scope tgt vh = Inl err" for err
    using that en vh by (simp add: VCDTracer_activate_probe_def)
  have reg: "VCDTracer_activate_probe t scope tgt hs =
                 Inr ([Registered \<lparr>var_meth = m, var_scope = p, var_name = n,
                         var_kwargs = default_init tgt (hint_kwargs vh)\<rparr>],
                      Some (Vcd_probe_callback t
                        \<lparr>var_meth = m, var_scope = p, var_name = n,
                         var_kwargs = default_init tgt (hint_kwargs vh)\<rparr>))"
    if "resolve_var_type scope tgt vh = Inr vt"
      and "select_register t vt (hint_kwargs vh) = Inr (m, hint_kwargs vh)"
      and "rsplit_dot scope = [p, n]" for vt m p n
    using that en vh by (simp add: VCDTracer_activate_probe_def Let_def)
  have int_level: "resolve_var_type scope (Container (PInt i)) vh = Inr (PStr ''integer'')"
    if "vh = Map.empty" for i
    using that by (simp add: resolve_var_type_def is_float_def)
  have float_level: "resolve_var_type scope (Container (PFloat x)) vh = Inr (PStr ''real'')"
    if "vh = Map.empty" for x
    using that by (simp add: resolve_var_type_def is_float_def)
  show ?thesis
    using explicit inferred fails int_level float_level
      reg[OF _ select_register_meth(1)] reg[OF _ select_register_meth(2)]
      reg[OF _ select_register_meth(3)]
    by (intro conjI allI impI; (elim conjE)?; blast)
qed


lemma rsplit_tank: "rsplit_dot ''sim.tank.level'' = [''sim.tank'', ''level'']"
  by (simp add: rsplit_dot_def)

theorem var_type_resolution_witness:
  "enabled vcd_on
   \<and> VCDTracer_activate_probe vcd_on ''sim.tank.level'' (Container (PInt 3)) hints_both
       = Inr ([Registered var_tank], Some (Vcd_probe_callback vcd_on var_tank))
   \<and> resolve_var_type ''sim.tank.level'' (Container (PFloat (5 / 2))) Map.empty
       = Inr (PStr ''real'')
   \<and> VCDTracer_activate_probe vcd_on ''sim.tank.level'' Other_target hints_both
       = Inl (ValueError ''Could not infer VCD var_type for sim.tank.level'')
   \<and> resolve_var_type ''sim.tank.level'' Other_target [''var_type'' \<mapsto> PStr ''event'']
       = Inr (PStr ''event'')"
proof -
  have en: "enabled vcd_on" and w: "vcd vcd_on = Some ''sim.vcd''"
    by (simp_all add: vcd_on_def)
  have vh: "Map.empty = (case hints_both ''vcd'' of None \<Rightarrow> Map.empty | Some h \<Rightarrow> h)"
    by (simp add: hints_both_def)
  have vh2: "[''var_type'' \<mapsto> PStr ''event'']
       = (case [''vcd'' \<mapsto> [''var_type'' \<mapsto> PStr ''event'']] ''vcd'' of
            None \<Rightarrow> Map.empty | Some h \<Rightarrow> h)"
    by simp
  note a = var_type_resolution [where vh = Map.empty and hs = hints_both and t = vcd_on
             and scope = "''sim.tank.level''" and tgt = "Container (PInt 3)", OF vh en]
  note b = var_type_resolution [where vh = Map.empty and hs = hints_both and t = vcd_on
             and scope = "''sim.tank.level''" and tgt = Other_target, OF vh en]
  note c = var_type_resolution [where vh = "[''var_type'' \<mapsto> PStr ''event'']"
             and hs = "[''vcd'' \<mapsto> [''var_type'' \<mapsto> PStr ''event'']]" and t = vcd_on
             and scope = "''sim.tank.level''" and tgt = Other_target, OF vh2 en]
  from a have a1: "resolve_var_type ''sim.tank.level'' (Container (PInt 3)) Map.empty
                     = Inr (PStr ''integer'')"
    by blast
  from a have a2: "resolve_var_type ''sim.tank.level'' (Container (PFloat (5 / 2))) Map.empty
                     = Inr (PStr ''real'')"
    by blast
  from a a1 w rsplit_tank have a3:
    "VCDTracer_activate_probe vcd_on ''sim.tank.level'' (Container (PInt 3)) hints_both
       = Inr ([Registered \<lparr>var_meth = Register_int, var_scope = ''sim.tank'',
                 var_name = ''level'',
                 var_kwargs = default_init (Container (PInt 3)) (hint_kwargs Map.empty)\<rparr>],
              Some (Vcd_probe_callback vcd_on
                \<lparr>var_meth = Register_int, var_scope = ''sim.tank'', var_name = ''level'',
                 var_kwargs = default_init (Container (PInt 3)) (hint_kwargs Map.empty)\<rparr>))"
    by blast
  have kw: "default_init (Container (PInt 3)) (hint_kwargs Map.empty) = [(''init'', PInt 3)]"
    by (simp add: default_init_def hint_kwargs_def)
  from b have b1: "resolve_var_type ''sim.tank.level'' Other_target Map.empty
      = Inl (ValueError (''Could not infer VCD var_type for '' @ ''sim.tank.level''))"
    by simp
  with b have b2: "VCDTracer_activate_probe vcd_on ''sim.tank.level'' Other_target hints_both
      = Inl (ValueError (''Could not infer VCD var_type for '' @ ''sim.tank.level''))"
    by blast
  from c have c1: "resolve_var_type ''sim.tank.level'' Other_target
       [''var_type'' \<mapsto> PStr ''event''] = Inr (PStr ''event'')"
    by simp
  from en a3 kw a2 b2 c1 show ?thesis by (simp add: var_tank_def)
qed

section \<open>The initial value of a signal\<close>

lemma map_of_default_init:
  "map_of (default_init tgt kw) ''init'' =
     (case map_of kw ''init'' of
        Some i \<Rightarrow> Some i
      | None \<Rightarrow>
          (case tgt of
             Container lv \<Rightarrow> Some lv
           | Resource us cap \<Rightarrow>
               Some (if us \<noteq> [] then PInt (int (length us)) else PStr ''z'')
           | Store its \<Rightarrow> Some (PInt (int (length its)))
           | Other_target \<Rightarrow> None))"
  by (auto simp: default_init_def map_add_def split: target.splits option.splits)

text \<open>
  Claim C4, as stated, fails: for a resource the code does not look at the capacity. A
  resource of capacity 1 that nobody uses is registered with the initial value
  \<^verbatim>\<open>'z'\<close>, not with its user count 0.
\<close>

theorem resource_init_counterexample:
  "VCDTracer_activate_probe vcd_on ''sim.cpu.users'' (Resource [] 1) hints_both
     = Inr ([Registered \<lparr>var_meth = Register_int, var_scope = ''sim.cpu'',
               var_name = ''users'', var_kwargs = [(''init'', PStr ''z'')]\<rparr>],
            Some (Vcd_probe_callback vcd_on
              \<lparr>var_meth = Register_int, var_scope = ''sim.cpu'', var_name = ''users'',
               var_kwargs = [(''init'', PStr ''z'')]\<rparr>))
   \<and> capacity (Resource [] 1) = 1
   \<and> PStr ''z'' \<noteq> PInt (int (length (users (Resource [] 1))))"
  by (simp add: VCDTracer_activate_probe_def hints_both_def resolve_var_type_def
        hint_kwargs_def select_register_def default_init_def rsplit_dot_def vcd_on_def
        Let_def)

text \<open>
  Claim C4, amended. Whenever \<^verbatim>\<open>VCDTracer.activate_probe\<close> registers a signal, its
  initial value is the \<^verbatim>\<open>init\<close> hint when the hints hold that key; otherwise the
  current level for a container, for a resource the number of its users when it has at
  least one and the sentinel \<^verbatim>\<open>'z'\<close> when it has none, and the number of items for a
  store; for any other target no initial value is passed.
\<close>

theorem initial_value_resolution:
  assumes ok: "VCDTracer_activate_probe t scope tgt hs = Inr (evs, cb)"
    and vh: "vh = (case hs ''vcd'' of None \<Rightarrow> Map.empty | Some h \<Rightarrow> h)"
  shows "\<exists>v. evs = [Registered v] \<and> cb = Some (Vcd_probe_callback t v)
     \<and> map_of (var_kwargs v) ''init'' =
         (case vh ''init'' of
            Some i \<Rightarrow> Some i
          | None \<Rightarrow>
              (case tgt of
                 Container lv \<Rightarrow> Some lv
               | Resource us cap \<Rightarrow>
                   Some (if us \<noteq> [] then PInt (int (length us)) else PStr ''z'')
               | Store its \<Rightarrow> Some (PInt (int (length its)))
               | Other_target \<Rightarrow> None))"
proof -
  from VCDTracer_activate_probe_Inr[OF ok] obtain m p n where
    evs: "evs = [Registered \<lparr>var_meth = m, var_scope = p, var_name = n,
                   var_kwargs = default_init tgt (hint_kwargs vh)\<rparr>]"
    and cb: "cb = Some (Vcd_probe_callback t \<lparr>var_meth = m, var_scope = p, var_name = n,
                   var_kwargs = default_init tgt (hint_kwargs vh)\<rparr>)"
    unfolding vh by blast
  have "map_of (default_init tgt (hint_kwargs vh)) ''init'' =
         (case vh ''init'' of
            Some i \<Rightarrow> Some i
          | None \<Rightarrow>
              (case tgt of
                 Container lv \<Rightarrow> Some lv
               | Resource us cap \<Rightarrow>
                   Some (if us \<noteq> [] then PInt (int (length us)) else PStr ''z'')
               | Store its \<Rightarrow> Some (PInt (int (length its)))
               | Other_target \<Rightarrow> None))"
    by (simp only: map_of_default_init map_of_hint_kwargs)
  with evs cb show ?thesis by simp
qed

theorem initial_value_resolution_witness:
  "(\<exists>v. VCDTracer_activate_probe vcd_on ''sim.tank.level'' (Container (PInt 3))
          (hints_both)
          = Inr ([Registered v], Some (Vcd_probe_callback vcd_on v))
        \<and> map_of (var_kwargs v) ''init'' = Some (PInt 3))
   \<and> (\<exists>v. VCDTracer_activate_probe vcd_on ''sim.tank.level'' (Resource [7, 8] 2)
          (hints_both)
          = Inr ([Registered v], Some (Vcd_probe_callback vcd_on v))
        \<and> map_of (var_kwargs v) ''init'' = Some (PInt 2))
   \<and> (\<exists>v. VCDTracer_activate_probe vcd_on ''sim.tank.level'' (Resource [] 2)
          (hints_both)
          = Inr ([Registered v], Some (Vcd_probe_callback vcd_on v))
        \<and> map_of (var_kwargs v) ''init'' = Some (PStr ''z''))
   \<and> (\<exists>v. VCDTracer_activate_probe vcd_on ''sim.tank.level'' (Store [PInt 1, PInt 1])
          (hints_both)
          = Inr ([Registered v], Some (Vcd_probe_callback vcd_on v))
        \<and> map_of (var_kwargs v) ''init'' = Some (PInt 2))
   \<and> (\<exists>v. VCDTracer_activate_probe vcd_on ''sim.tank.level'' (Store [PInt 1, PInt 1])
          ([''vcd'' \<mapsto> [''init'' \<mapsto> PInt 9]])
          = Inr ([Registered v], Some (Vcd_probe_callback vcd_on v))
        \<and> map_of (var_kwargs v) ''init'' = Some (PInt 9))"
proof -
  have vh: "Map.empty = (case hints_both ''vcd'' of None \<Rightarrow> Map.empty | Some h \<Rightarrow> h)"
    by (simp add: hints_both_def)
  have vh2: "[''init'' \<mapsto> PInt 9]
       = (case [''vcd'' \<mapsto> [''init'' \<mapsto> PInt 9]] ''vcd'' of
            None \<Rightarrow> Map.empty | Some h \<Rightarrow> h)"
    by simp
  have e1: "VCDTracer_activate_probe vcd_on ''sim.tank.level'' (Container (PInt 3))
          (hints_both)
      = Inr ([Registered
          \<lparr>var_meth = Register_int, var_scope = ''sim.tank'', var_name = ''level'',
           var_kwargs = [(''init'', PInt 3)]\<rparr>],
        Some (Vcd_probe_callback vcd_on
          \<lparr>var_meth = Register_int, var_scope = ''sim.tank'', var_name = ''level'',
           var_kwargs = [(''init'', PInt 3)]\<rparr>))"
    by (simp add: VCDTracer_activate_probe_def hints_both_def resolve_var_type_def
          is_float_def hint_kwargs_def select_register_def default_init_def rsplit_dot_def
          vcd_on_def Let_def)
  have w1: "\<exists>v. VCDTracer_activate_probe vcd_on ''sim.tank.level'' (Container (PInt 3))
          (hints_both)
          = Inr ([Registered v], Some (Vcd_probe_callback vcd_on v))
        \<and> map_of (var_kwargs v) ''init'' = Some (PInt 3)"
    using initial_value_resolution [where t = vcd_on and scope = "''sim.tank.level''"
        and tgt = "Container (PInt 3)" and hs = "hints_both"
        and vh = "Map.empty", OF e1 vh] e1
    by auto
  have e2: "VCDTracer_activate_probe vcd_on ''sim.tank.level'' (Resource [7, 8] 2)
          (hints_both)
      = Inr ([Registered
          \<lparr>var_meth = Register_int, var_scope = ''sim.tank'', var_name = ''level'',
           var_kwargs = [(''init'', PInt 2)]\<rparr>],
        Some (Vcd_probe_callback vcd_on
          \<lparr>var_meth = Register_int, var_scope = ''sim.tank'', var_name = ''level'',
           var_kwargs = [(''init'', PInt 2)]\<rparr>))"
    by (simp add: VCDTracer_activate_probe_def hints_both_def resolve_var_type_def
          is_float_def hint_kwargs_def select_register_def default_init_def rsplit_dot_def
          vcd_on_def Let_def)
  have w2: "\<exists>v. VCDTracer_activate_probe vcd_on ''sim.tank.level'' (Resource [7, 8] 2)
          (hints_both)
          = Inr ([Registered v], Some (Vcd_probe_callback vcd_on v))
        \<and> map_of (var_kwargs v) ''init'' = Some (PInt 2)"
    using initial_value_resolution [where t = vcd_on and scope = "''sim.tank.level''"
        and tgt = "Resource [7, 8] 2" and hs = "hints_both"
        and vh = "Map.empty", OF e2 vh] e2
    by auto
  have e3: "VCDTracer_activate_probe vcd_on ''sim.tank.level'' (Resource [] 2)
          (hints_both)
      = Inr ([Registered
          \<lparr>var_meth = Register_int, var_scope = ''sim.tank'', var_name = ''level'',
           var_kwargs = [(''init'', PStr ''z'')]\<rparr>],
        Some (Vcd_probe_callback vcd_on
          \<lparr>var_meth = Register_int, var_scope = ''sim.tank'', var_name = ''level'',
           var_kwargs = [(''init'', PStr ''z'')]\<rparr>))"
    by (simp add: VCDTracer_activate_probe_def hints_both_def resolve_var_type_def
          is_float_def hint_kwargs_def select_register_def default_init_def rsplit_dot_def
          vcd_on_def Let_def)
  have w3: "\<exists>v. VCDTracer_activate_probe vcd_on ''sim.tank.level'' (Resource [] 2)
          (hints_both)
          = Inr ([Registered v], Some (Vcd_probe_callback vcd_on v))
        \<and> map_of (var_kwargs v) ''init'' = Some (PStr ''z'')"
    using initial_value_resolution [where t = vcd_on and scope = "''sim.tank.level''"
        and tgt = "Resource [] 2" and hs = "hints_both"
        and vh = "Map.empty", OF e3 vh] e3
    by auto
  have e4: "VCDTracer_activate_probe vcd_on ''sim.tank.level'' (Store [PInt 1, PInt 1])
          (hints_both)
      = Inr ([Registered
          \<lparr>var_meth = Register_int, var_scope = ''sim.tank'', var_name = ''level'',
           var_kwargs = [(''init'', PInt 2)]\<rparr>],
        Some (Vcd_probe_callback vcd_on
          \<lparr>var_meth = Register_int, var_scope = ''sim.tank'', var_name = ''level'',
           var_kwargs = [(''init'', PInt 2)]\<rparr>))"
    by (simp add: VCDTracer_activate_probe_def hints_both_def resolve_var_type_def
          is_float_def hint_kwargs_def select_register_def default_init_def rsplit_dot_def
          vcd_on_def Let_def)
  have w4: "\<exists>v. VCDTracer_activate_probe vcd_on ''sim.tank.level'' (Store [PInt 1, PInt 1])
          (hints_both)
          = Inr ([Registered v], Some (Vcd_probe_callback vcd_on v))
        \<and> map_of (var_kwargs v) ''init'' = Some (PInt 2)"
    using initial_value_resolution [where t = vcd_on and scope = "''sim.tank.level''"
        and tgt = "Store [PInt 1, PInt 1]" and hs = "hints_both"
        and vh = "Map.empty", OF e4 vh] e4
    by auto
  have e5: "VCDTracer_activate_probe vcd_on ''sim.tank.level'' (Store [PInt 1, PInt 1])
          ([''vcd'' \<mapsto> [''init'' \<mapsto> PInt 9]])
      = Inr ([Registered
          \<lparr>var_meth = Register_int, var_scope = ''sim.tank'', var_name = ''level'',
           var_kwargs = [(''init'', PInt 9)]\<rparr>],
        Some (Vcd_probe_callback vcd_on
          \<lparr>var_meth = Register_int, var_scope = ''sim.tank'', var_name = ''level'',
           var_kwargs = [(''init'', PInt 9)]\<rparr>))"
    by (simp add: VCDTracer_activate_probe_def hints_both_def resolve_var_type_def
          is_float_def hint_kwargs_def select_register_def default_init_def rsplit_dot_def
          vcd_on_def Let_def)
  have w5: "\<exists>v. VCDTracer_activate_probe vcd_on ''sim.tank.level'' (Store [PInt 1, PInt 1])
          ([''vcd'' \<mapsto> [''init'' \<mapsto> PInt 9]])
          = Inr ([Registered v], Some (Vcd_probe_callback vcd_on v))
        \<and> map_of (var_kwargs v) ''init'' = Some (PInt 9)"
    using initial_value_resolution [where t = vcd_on and scope = "''sim.tank.level''"
        and tgt = "Store [PInt 1, PInt 1]" and hs = "[''vcd'' \<mapsto> [''init'' \<mapsto> PInt 9]]"
        and vh = "[''init'' \<mapsto> PInt 9]", OF e5 vh2] e5
    by auto
  from w1 w2 w3 w4 w5 show ?thesis by blast
qed

section \<open>A scope without a dot\<close>

text \<open>
  Claim C10. When the scope contains no dot, \<^verbatim>\<open>VCDTracer.activate_probe\<close> always ends
  in an exception, so no signal is registered: \<^verbatim>\<open>rsplit\<close> returns the scope alone, and
  once the tracer is enabled, the kind resolved and the entry point selected, the
  exception is the \<open>ValueError\<close> of unpacking one value into two names. A scope that
  ends in a dot followed by a leaf name without dots is split there.
\<close>

theorem scope_without_dot_is_rejected:
  assumes nodot: "CHR ''.'' \<notin> set scope"
    and vh: "vh = (case hs ''vcd'' of None \<Rightarrow> Map.empty | Some h \<Rightarrow> h)"
  shows "(\<exists>err. VCDTracer_activate_probe t scope tgt hs = Inl err)
       \<and> rsplit_dot scope = [scope]
       \<and> (\<forall>vt m kw. enabled t \<and> resolve_var_type scope tgt vh = Inr vt
                    \<and> select_register t vt (hint_kwargs vh) = Inr (m, kw)
            \<longrightarrow> VCDTracer_activate_probe t scope tgt hs = Inl unpack_error)
       \<and> (\<forall>p n. CHR ''.'' \<notin> set n \<longrightarrow> rsplit_dot (p @ ''.'' @ n) = [p, n])"
proof -
  have one: "rsplit_dot scope = [scope]" by (rule rsplit_dot_no_dot[OF nodot])
  have raises: "\<exists>err. VCDTracer_activate_probe t scope tgt hs = Inl err"
  proof (cases "VCDTracer_activate_probe t scope tgt hs")
    case (Inl err)
    then show ?thesis by blast
  next
    case (Inr r)
    then obtain evs cb where "VCDTracer_activate_probe t scope tgt hs = Inr (evs, cb)"
      by (cases r) simp
    from VCDTracer_activate_probe_Inr[OF this] obtain p n where "rsplit_dot scope = [p, n]"
      by blast
    with one show ?thesis by simp
  qed
  have unpack: "VCDTracer_activate_probe t scope tgt hs = Inl unpack_error"
    if "enabled t" "resolve_var_type scope tgt vh = Inr vt"
      "select_register t vt (hint_kwargs vh) = Inr (m, kw)" for vt m kw
    using that one vh by (simp add: VCDTracer_activate_probe_def Let_def)
  have split: "rsplit_dot (p @ ''.'' @ n) = [p, n]" if "CHR ''.'' \<notin> set n" for p n
    by (rule rsplit_dot_last[OF that])
  from raises one unpack split show ?thesis by blast
qed

theorem scope_without_dot_is_rejected_witness:
  "CHR ''.'' \<notin> set ''level''
   \<and> VCDTracer_activate_probe vcd_on ''level'' (Container (PInt 3)) hints_both
       = Inl unpack_error
   \<and> rsplit_dot ''level'' = [''level'']
   \<and> rsplit_dot ''sim.tank.level'' = [''sim.tank'', ''level'']"
proof -
  have nodot: "CHR ''.'' \<notin> set ''level''" by simp
  have vh: "Map.empty = (case hints_both ''vcd'' of None \<Rightarrow> Map.empty | Some h \<Rightarrow> h)"
    by (simp add: hints_both_def)
  have en: "enabled vcd_on" by (simp add: vcd_on_def)
  have r: "resolve_var_type ''level'' (Container (PInt 3)) Map.empty = Inr (PStr ''integer'')"
    by (simp add: resolve_var_type_def is_float_def)
  have s: "select_register vcd_on (PStr ''integer'') (hint_kwargs Map.empty)
             = Inr (Register_int, hint_kwargs Map.empty)"
    by (simp add: select_register_def vcd_on_def)
  note th = scope_without_dot_is_rejected [where scope = "''level''" and hs = hints_both
      and vh = Map.empty and t = vcd_on and tgt = "Container (PInt 3)", OF nodot vh]
  from th en r s have a:
    "VCDTracer_activate_probe vcd_on ''level'' (Container (PInt 3)) hints_both
       = Inl unpack_error"
    by blast
  from th have b: "rsplit_dot ''level'' = [''level'']" by blast
  from th have "CHR ''.'' \<notin> set ''level'' \<longrightarrow>
      rsplit_dot (''sim.tank'' @ ''.'' @ ''level'') = [''sim.tank'', ''level'']"
    by blast
  then have c: "rsplit_dot ''sim.tank.level'' = [''sim.tank'', ''level'']" by simp
  from nodot a b c show ?thesis by blast
qed

section \<open>Two defects\<close>

text \<open>
  Claim C5 does not hold of the code. For a \<^verbatim>\<open>var_type\<close> hint other than
  \<^verbatim>\<open>integer\<close>, \<^verbatim>\<open>real\<close> and \<^verbatim>\<open>event\<close>, line 178 reads \<^verbatim>\<open>self.vcd_register_var\<close>
  where the sibling branches read \<^verbatim>\<open>self.vcd.register_int\<close> and so on; the tracer has
  no such attribute, so the call raises \<open>AttributeError\<close> and registers nothing.
\<close>

theorem other_var_type_raises:
  "VCDTracer_activate_probe vcd_on ''sim.bus.data'' (Container (PInt 3))
     [''vcd'' \<mapsto> [''var_type'' \<mapsto> PStr ''wire'', ''size'' \<mapsto> PInt 8]]
   = Inl (AttributeError ''vcd_register_var'')"
  by (simp add: VCDTracer_activate_probe_def resolve_var_type_def select_register_def
        vcd_on_def Let_def)

text \<open>
  Claim C7 does not hold of the code. On a log tracer that is disabled,
  \<^verbatim>\<open>get_log_function(scope, level)\<close> with a level name evaluates
  \<^verbatim>\<open>self.levels[level] <= self.max_level\<close> before it looks at \<^verbatim>\<open>self.enabled\<close>;
  \<^verbatim>\<open>max_level\<close> is only assigned by \<^verbatim>\<open>open\<close>, which a disabled tracer never runs, so
  the call raises \<open>AttributeError\<close> instead of returning a function that does nothing.
\<close>

theorem get_log_function_disabled_raises:
  "Tracer_init LogTracer_class env_off = Inr ([], log_off)
   \<and> get_log_function log_off ''sim.net'' (PStr ''INFO'') = Inl (AttributeError ''max_level'')"
  by (simp add: init_log_off get_log_function_def LogTracer_is_scope_enabled_def
        level_rank_def levels_def log_off_def)

section \<open>An exception leaving the tracing scope\<close>

lemma LogTracer_open_sink:
  assumes "LogTracer_open e t = Inr (evs, t1)" and "exit_stack t = []"
  shows "\<exists>f u s. format_str t1 = Some f \<and> ts_unit t1 = Some u \<and> log_file t1 = Some s
           \<and> (s = Stderr \<and> exit_stack t1 = []
                \<or> (\<exists>fn. s = File_sink fn \<and> exit_stack t1 = [File_resource fn]))"
  using assms
  by (auto simp: LogTracer_open_def Let_def
           split: sum.splits option.splits if_splits prod.splits)

lemma LogTracer_init_sink:
  assumes "Tracer_init LogTracer_class e = Inr (evs, t)" and "enabled t"
  shows "\<exists>f u s. format_str t = Some f \<and> ts_unit t = Some u \<and> log_file t = Some s
           \<and> (s = Stderr \<and> exit_stack t = []
                \<or> (\<exists>fn. s = File_sink fn \<and> exit_stack t = [File_resource fn]))"
proof -
  let ?t0 = "\<lparr>cls = LogTracer_class, enabled = True, exit_stack = [], include_re = None,
                exclude_re = None, max_level = None, format_str = None, ts_unit = None,
                log_file = None, vcd = None\<rparr>"
  from assms obtain evs1 t1 where
    o: "LogTracer_open e ?t0 = Inr (evs1, t1)" and
    t: "t = t1\<lparr>include_re := include_re t, exclude_re := exclude_re t\<rparr>"
    by (auto simp: Tracer_init_def tracer_open_def Let_def
             split: sum.splits if_splits prod.splits)
  from LogTracer_open_sink[OF o] obtain f u s where
    "format_str t1 = Some f" "ts_unit t1 = Some u" "log_file t1 = Some s"
    "s = Stderr \<and> exit_stack t1 = []
       \<or> (\<exists>fn. s = File_sink fn \<and> exit_stack t1 = [File_resource fn])"
    by auto
  moreover have "format_str t = format_str t1" "ts_unit t = ts_unit t1"
    "log_file t = log_file t1" "exit_stack t = exit_stack t1"
    by (subst t, simp)+
  ultimately show ?thesis by simp
qed

lemma prints_closed: "prints (map Closed rs) = []"
  by (induction rs) simp_all

lemma prints_append: "prints (xs @ ys) = prints xs @ prints ys"
  by (induction xs rule: prints.induct) simp_all

lemma default_format_formats:
  "str_format ext exit_kinds (format_full default_format lv ts u sc m)
     = Inr (format_full default_format lv ts u sc m)"
  by (simp add: str_format_def format_full_def default_format_def exit_kinds_def
        check_field_def is_digit_def)

lemma init_log_who:
  "Tracer_init LogTracer_class env_who = Inr ([Opened ''sim.log''], log_who)"
  by (simp add: Tracer_init_def env_who_def log_who_def log_on_def tracer_open_def
        LogTracer_open_def level_rank_def levels_def)

lemma init_vcd_who:
  "Tracer_init VCDTracer_class env_who =
     Inr ([Opened ''sim.vcd'', Writer_created ''sim.vcd'' (1, ''us'') True], vcd_on)"
  by (simp add: Tracer_init_def env_who_def vcd_on_def tracer_open_def VCDTracer_open_def)

lemma TraceManager_init_on:
  "TraceManager_init env_on =
     Inr ([Opened ''sim.log'', Opened ''sim.vcd'',
           Writer_created ''sim.vcd'' (1, ''us'') True], tm_on)"
  by (simp add: TraceManager_init_def init_log_on init_vcd_on tm_on_def)

lemma TraceManager_init_who:
  "TraceManager_init env_who =
     Inr ([Opened ''sim.log'', Opened ''sim.vcd'',
           Writer_created ''sim.vcd'' (1, ''us'') True], tm_who)"
  by (simp add: TraceManager_init_def init_log_who init_vcd_who tm_who_def)

text \<open>
  Claim C8, as stated, fails: line 88 formats the configured template before it prints
  and before it closes. With the log format \<^verbatim>\<open>{who}: {message}\<close> and an exception
  passing through \<^verbatim>\<open>TraceManager.__exit__\<close>, the formatting raises \<open>KeyError\<close>: the
  signal tracer has released its resources, no line is written, the log file stays on
  the log tracer's exit stack, and the \<open>KeyError\<close> is raised in place of the exception
  in flight.
\<close>

theorem exception_log_format_counterexample:
  "TraceManager_init env_who =
     Inr ([Opened ''sim.log'', Opened ''sim.vcd'',
           Writer_created ''sim.vcd'' (1, ''us'') True], tm_who)
   \<and> enabled (log_tracer tm_who)
   \<and> TraceManager_exit ext_returns tm_who (Some exc_boom) 10 =
       ([Closed (Writer_resource ''sim.vcd''), Closed (File_resource ''sim.vcd'')],
        \<lparr>log_tracer = log_who, vcd_tracer = vcd_on\<lparr>exit_stack := []\<rparr>\<rparr>,
        Inl (KeyError (PStr ''who'')))
   \<and> prints (fst (TraceManager_exit ext_returns tm_who (Some exc_boom) 10)) = []
   \<and> exit_stack log_who = [File_resource ''sim.log'']"
  by (simp add: TraceManager_init_who TraceManager_exit_def Tracer_exit_def
        LogTracer_exit_def close_def tm_who_def log_who_def log_on_def vcd_on_def
        str_format_def format_full_def exit_kinds_def check_field_def is_digit_def
        Let_def)

text \<open>
  Claim C8, amended. Let the manager be constructed with the log tracer enabled, let an
  exception pass through \<^verbatim>\<open>TraceManager.__exit__\<close>, and let the configured template
  format with the five bindings of line 88 (the default template always does). The
  events are, in this order: the signal tracer releases its resources, newest first;
  one line is printed to the log destination, at level \<^verbatim>\<open>ERROR\<close>, its message the
  last line of the formatted traceback (the line naming the exception, not a stack
  frame); the log tracer releases its resources (the log file, when the destination is a
  file). It is the only line printed, both exit stacks are empty afterwards, and the
  method returns a falsy value, so the exception goes on to the caller.
\<close>

theorem exception_is_logged_and_propagates:
  assumes init: "TraceManager_init e = Inr (evs0, tm)" and en: "enabled (log_tracer tm)"
    and ok: "\<And>f u. format_str (log_tracer tm) = Some f \<Longrightarrow> ts_unit (log_tracer tm) = Some u
               \<Longrightarrow> str_format ext exit_kinds
                     (format_full f (PStr ''ERROR'') now u ''Exception''
                        (Text (PStr (last (format_exception x)))))
                   = Inr (format_full f (PStr ''ERROR'') now u ''Exception''
                            (Text (PStr (last (format_exception x)))))"
  shows "\<exists>f u s line.
       format_str (log_tracer tm) = Some f \<and> ts_unit (log_tracer tm) = Some u
     \<and> log_file (log_tracer tm) = Some s
     \<and> line = format_full f (PStr ''ERROR'') now u ''Exception''
                (Text (PStr (last (format_exception x))))
     \<and> TraceManager_exit ext tm (Some x) now =
         (map Closed (rev (exit_stack (vcd_tracer tm)))
            @ [Printed s line (PStr [CHR 0x0A] # map PStr (format_exception x))]
            @ map Closed (rev (exit_stack (log_tracer tm))),
          \<lparr>log_tracer = (log_tracer tm)\<lparr>exit_stack := []\<rparr>,
           vcd_tracer = (vcd_tracer tm)\<lparr>exit_stack := []\<rparr>\<rparr>,
          Inr False)
     \<and> prints (fst (TraceManager_exit ext tm (Some x) now))
         = [(s, line, PStr [CHR 0x0A] # map PStr (format_exception x))]
     \<and> level_arg line = PStr ''ERROR'' \<and> message_arg line = Text (PStr (tb_last x))
     \<and> (s = Stderr \<and> exit_stack (log_tracer tm) = []
          \<or> (\<exists>fn. s = File_sink fn \<and> exit_stack (log_tracer tm) = [File_resource fn]))
     \<and> (f = default_format \<longrightarrow> (\<forall>ext'. str_format ext' exit_kinds line = Inr line))"
proof -
  from TraceManager_init_tracers[OF init] obtain e1 where
    l: "Tracer_init LogTracer_class e = Inr (e1, log_tracer tm)" by blast
  from LogTracer_init_sink[OF l en] obtain f u s where a:
    "format_str (log_tracer tm) = Some f" "ts_unit (log_tracer tm) = Some u"
    "log_file (log_tracer tm) = Some s"
    "s = Stderr \<and> exit_stack (log_tracer tm) = []
       \<or> (\<exists>fn. s = File_sink fn \<and> exit_stack (log_tracer tm) = [File_resource fn])"
    by blast
  define line where "line = format_full f (PStr ''ERROR'') now u ''Exception''
                (Text (PStr (last (format_exception x))))"
  have fmt: "str_format ext exit_kinds line = Inr line"
    unfolding line_def by (rule ok[OF a(1) a(2)])
  have ex: "TraceManager_exit ext tm (Some x) now =
         (map Closed (rev (exit_stack (vcd_tracer tm)))
            @ [Printed s line (PStr [CHR 0x0A] # map PStr (format_exception x))]
            @ map Closed (rev (exit_stack (log_tracer tm))),
          \<lparr>log_tracer = (log_tracer tm)\<lparr>exit_stack := []\<rparr>,
           vcd_tracer = (vcd_tracer tm)\<lparr>exit_stack := []\<rparr>\<rparr>,
          Inr False)"
    using a(1-3) en fmt[unfolded line_def]
    by (simp add: TraceManager_exit_def Tracer_exit_def LogTracer_exit_def close_def
          line_def Let_def)
  have pr: "prints (fst (TraceManager_exit ext tm (Some x) now))
         = [(s, line, PStr [CHR 0x0A] # map PStr (format_exception x))]"
    by (simp add: ex prints_append prints_closed)
  have lv: "level_arg line = PStr ''ERROR''" "message_arg line = Text (PStr (tb_last x))"
    by (simp_all add: line_def format_full_def format_exception_def)
  have dflt: "f = default_format \<longrightarrow> (\<forall>ext'. str_format ext' exit_kinds line = Inr line)"
    by (simp add: line_def default_format_formats)
  from a line_def ex pr lv dflt show ?thesis by blast
qed

theorem exception_is_logged_and_propagates_witness:
  "TraceManager_init env_on =
     Inr ([Opened ''sim.log'', Opened ''sim.vcd'',
           Writer_created ''sim.vcd'' (1, ''us'') True], tm_on)
   \<and> enabled (log_tracer tm_on)
   \<and> format_str (log_tracer tm_on) = Some default_format
   \<and> str_format ext_returns exit_kinds
       (format_full default_format (PStr ''ERROR'') 10 ''us'' ''Exception''
          (Text (PStr ''ValueError: boom'')))
       = Inr (format_full default_format (PStr ''ERROR'') 10 ''us'' ''Exception''
                (Text (PStr ''ValueError: boom'')))
   \<and> fst (TraceManager_exit ext_returns tm_on (Some exc_boom) 10) =
       [Closed (Writer_resource ''sim.vcd''), Closed (File_resource ''sim.vcd''),
        Printed (File_sink ''sim.log'')
          (format_full default_format (PStr ''ERROR'') 10 ''us'' ''Exception''
             (Text (PStr ''ValueError: boom'')))
          [PStr [CHR 0x0A], PStr ''Traceback (most recent call last):'',
           PStr ''  File model.py, line 7'', PStr ''ValueError: boom''],
        Closed (File_resource ''sim.log'')]
   \<and> snd (snd (TraceManager_exit ext_returns tm_on (Some exc_boom) 10)) = Inr False"
proof -
  have en: "enabled (log_tracer tm_on)" by (simp add: tm_on_def log_on_def)
  have fields: "format_str (log_tracer tm_on) = Some default_format"
    "ts_unit (log_tracer tm_on) = Some ''us''"
    "log_file (log_tracer tm_on) = Some (File_sink ''sim.log'')"
    "exit_stack (log_tracer tm_on) = [File_resource ''sim.log'']"
    "exit_stack (vcd_tracer tm_on) = [File_resource ''sim.vcd'', Writer_resource ''sim.vcd'']"
    "format_exception exc_boom = [''Traceback (most recent call last):'',
       ''  File model.py, line 7'', ''ValueError: boom'']"
    by (simp_all add: tm_on_def log_on_def vcd_on_def format_exception_def exc_boom_def)
  have ok: "str_format ext_returns exit_kinds
                     (format_full f (PStr ''ERROR'') 10 u ''Exception''
                        (Text (PStr (last (format_exception exc_boom)))))
                   = Inr (format_full f (PStr ''ERROR'') 10 u ''Exception''
                            (Text (PStr (last (format_exception exc_boom)))))"
    if "format_str (log_tracer tm_on) = Some f" "ts_unit (log_tracer tm_on) = Some u" for f u
    using that fields(1) by (simp add: default_format_formats)
  from exception_is_logged_and_propagates [where now = 10 and x = exc_boom
      and ext = ext_returns, OF TraceManager_init_on en ok]
  obtain f u s line where
    "format_str (log_tracer tm_on) = Some f" "ts_unit (log_tracer tm_on) = Some u"
    "log_file (log_tracer tm_on) = Some s"
    "line = format_full f (PStr ''ERROR'') 10 u ''Exception''
                (Text (PStr (last (format_exception exc_boom))))"
    "TraceManager_exit ext_returns tm_on (Some exc_boom) 10 =
         (map Closed (rev (exit_stack (vcd_tracer tm_on)))
            @ [Printed s line (PStr [CHR 0x0A] # map PStr (format_exception exc_boom))]
            @ map Closed (rev (exit_stack (log_tracer tm_on))),
          \<lparr>log_tracer = (log_tracer tm_on)\<lparr>exit_stack := []\<rparr>,
           vcd_tracer = (vcd_tracer tm_on)\<lparr>exit_stack := []\<rparr>\<rparr>,
          Inr False)"
    by blast
  with fields en TraceManager_init_on show ?thesis
    by (simp add: default_format_formats)
qed

end
